theory Spec2Isabelle
  imports Complex_Main "HOL-Library.AList"
begin

section \<open>The risk assessment agent: data model\<close>

text \<open>
  The development embeds \<^verbatim>\<open>src/agents/risk_assessment_agent.py\<close> (class
  \<^verbatim>\<open>RiskAssessmentAgent\<close>). Python method names lose their leading underscore, since
  an Isabelle name starts with a letter.

  Numbers read from the input dictionaries (quantities, prices, shocks) are finite and are
  modelled as \<^typ>\<open>real\<close>: rounding and overflow of IEEE doubles are not modelled, except
  in the portfolio preparation, whose arithmetic takes the rounding as a parameter. Numbers
  computed by numpy can be infinite or NaN (numpy divides by zero without raising), so they
  are values of the type \<open>npfloat\<close> below. Holdings and scenarios are records with all
  their keys; a price record may lack its price, and every key that the source reads with
  \<^verbatim>\<open>.get\<close> is optional.
\<close>

datatype py_exception =
    KeyError string
  | ZeroDivisionError
  | ValueError
  | TypeError
  | AttributeError
  | IndexError

datatype npfloat = Fin real | PInf | NInf | NaN

record holding =
  symbol :: string
  quantity :: real

text \<open>A price record \<^verbatim>\<open>{'timestamp': ..., 'price': ...}\<close>; \<open>None\<close> is a record without
  the key \<^verbatim>\<open>'price'\<close>, on which \<^verbatim>\<open>p['price']\<close> raises.\<close>

record price_point =
  price :: "real option"

text \<open>The per-symbol entry of \<^verbatim>\<open>price_data\<close>: both keys are read with \<^verbatim>\<open>.get\<close>.\<close>

record price_entry =
  current_price :: "real option"
  prices :: "price_point list"

type_synonym price_data = "string \<rightharpoonup> price_entry"

text \<open>An element of \<^verbatim>\<open>portfolio_data['assets']\<close>, built by \<^verbatim>\<open>_prepare_portfolio_data\<close>.\<close>

record asset = holding +
  asset_current_price :: real
  asset_value :: real
  asset_weight :: real

text \<open>
  A portfolio dictionary. The public entry points receive either the caller's portfolio
  (keys \<^verbatim>\<open>id\<close>, \<^verbatim>\<open>holdings\<close>, \<^verbatim>\<open>total_value\<close>) or the dictionary made by
  \<^verbatim>\<open>_prepare_portfolio_data\<close> (keys \<^verbatim>\<open>assets\<close>, \<^verbatim>\<open>total_value\<close>, \<^verbatim>\<open>asset_count\<close>),
  so every key is optional.
\<close>

record portfolio =
  pid :: "string option"
  holdings :: "holding list option"
  assets :: "asset list option"
  total_value :: "real option"
  asset_count :: "nat option"

text \<open>The values of the result dictionaries; a dictionary keeps its insertion order.\<close>

datatype pyval =
    PNum npfloat
  | PStr string
  | PList "pyval list"
  | PDict "(string \<times> pyval) list"

abbreviation PReal :: "real \<Rightarrow> pyval" where
  "PReal r \<equiv> PNum (Fin r)"

text \<open>\<^verbatim>\<open>d.get(k, default)\<close> on an entry of \<^verbatim>\<open>price_data\<close>.\<close>

definition entry_of :: "price_data \<Rightarrow> string \<Rightarrow> price_entry" where
  "entry_of price_data s =
     (case price_data s of
        None \<Rightarrow> \<lparr>current_price = None, prices = []\<rparr>
      | Some e \<Rightarrow> e)"

definition current_price_of :: "price_data \<Rightarrow> string \<Rightarrow> real" where
  "current_price_of price_data s =
     (case current_price (entry_of price_data s) of None \<Rightarrow> 0 | Some p \<Rightarrow> p)"

section \<open>Stress testing\<close>

record stress_scenario =
  name :: string
  description :: "string option"
  shocks :: "string \<rightharpoonup> real"

definition get_default_stress_scenarios :: "stress_scenario list" where
  "get_default_stress_scenarios =
     [\<lparr>name = ''market_crash'', description = Some ''Severe market crash scenario'',
       shocks = [''all'' \<mapsto> - 0.5]\<rparr>,
      \<lparr>name = ''crypto_winter'', description = Some ''Extended bear market'',
       shocks = [''all'' \<mapsto> - 0.8]\<rparr>,
      \<lparr>name = ''bitcoin_crash'', description = Some ''Bitcoin-specific crash'',
       shocks = [''BTC'' \<mapsto> - 0.6, ''others'' \<mapsto> - 0.3]\<rparr>,
      \<lparr>name = ''defi_collapse'', description = Some ''DeFi sector collapse'',
       shocks = [''DeFi'' \<mapsto> - 0.7, ''others'' \<mapsto> - 0.2]\<rparr>,
      \<lparr>name = ''regulatory_crackdown'', description = Some ''Major regulatory restrictions'',
       shocks = [''all'' \<mapsto> - 0.4]\<rparr>]"

text \<open>The block "Determine shock to apply" of \<^verbatim>\<open>_apply_stress_scenario\<close>: the
  \<^verbatim>\<open>if\<close>/\<^verbatim>\<open>elif\<close> chain in the order of the source.\<close>

definition shock_for :: "(string \<rightharpoonup> real) \<Rightarrow> string \<Rightarrow> real" where
  "shock_for sh s =
     (if ''all'' \<in> dom sh then the (sh ''all'')
      else if s \<in> dom sh then the (sh s)
      else if ''others'' \<in> dom sh then the (sh ''others'')
      else 0)"

record asset_impact =
  original_price :: real
  new_price :: real
  shock_applied :: real
  value_change :: real

record scenario_outcome =
  new_value :: real
  asset_impacts :: "(string \<times> asset_impact) list"

text \<open>One iteration of the loop over the holdings.\<close>

definition apply_shock_to_holding ::
  "(string \<rightharpoonup> real) \<Rightarrow> price_data \<Rightarrow> scenario_outcome \<Rightarrow> holding \<Rightarrow> scenario_outcome" where
  "apply_shock_to_holding sh price_data acc h =
     (let cp = current_price_of price_data (symbol h);
          shock = shock_for sh (symbol h);
          np = cp * (1 + shock);
          new_asset_value = quantity h * np
      in \<lparr>new_value = new_value acc + new_asset_value,
          asset_impacts = AList.update (symbol h)
            \<lparr>original_price = cp, new_price = np, shock_applied = shock,
             value_change = new_asset_value - quantity h * cp\<rparr> (asset_impacts acc)\<rparr>)"

definition holdings_of :: "portfolio \<Rightarrow> holding list" where
  "holdings_of p = (case holdings p of None \<Rightarrow> [] | Some hs \<Rightarrow> hs)"

definition apply_stress_scenario ::
  "portfolio \<Rightarrow> (string \<rightharpoonup> real) \<Rightarrow> price_data \<Rightarrow> scenario_outcome" where
  "apply_stress_scenario p sh price_data =
     foldl (apply_shock_to_holding sh price_data)
       \<lparr>new_value = 0, asset_impacts = []\<rparr> (holdings_of p)"

record scenario_report =
  sr_description :: string
  portfolio_value_before :: real
  portfolio_value_after :: real
  absolute_loss :: real
  percentage_loss :: real
  sr_asset_impacts :: "(string \<times> asset_impact) list"

text \<open>Python's \<^verbatim>\<open>/\<close> on two Python numbers raises on a zero divisor.\<close>

definition py_div :: "real \<Rightarrow> real \<Rightarrow> py_exception + real" where
  "py_div a b = (if b = 0 then Inl ZeroDivisionError else Inr (a / b))"

text \<open>The body of the loop over the scenarios, for one scenario.\<close>

definition scenario_report_of ::
  "portfolio \<Rightarrow> price_data \<Rightarrow> real \<Rightarrow> stress_scenario \<Rightarrow> py_exception + scenario_report" where
  "scenario_report_of p price_data portfolio_value sc =
     (let res = apply_stress_scenario p (shocks sc) price_data
      in case py_div (portfolio_value - new_value res) portfolio_value of
           Inl e \<Rightarrow> Inl e
         | Inr q \<Rightarrow> Inr
             \<lparr>sr_description = (case description sc of None \<Rightarrow> [] | Some d \<Rightarrow> d),
              portfolio_value_before = portfolio_value,
              portfolio_value_after = new_value res,
              absolute_loss = portfolio_value - new_value res,
              percentage_loss = q * 100,
              sr_asset_impacts = asset_impacts res\<rparr>)"

fun run_scenarios ::
  "portfolio \<Rightarrow> price_data \<Rightarrow> real \<Rightarrow> (string \<times> scenario_report) list \<Rightarrow>
   stress_scenario list \<Rightarrow> py_exception + (string \<times> scenario_report) list" where
  "run_scenarios p price_data pv acc [] = Inr acc"
| "run_scenarios p price_data pv acc (sc # scs) =
     (case scenario_report_of p price_data pv sc of
        Inl e \<Rightarrow> Inl e
      | Inr r \<Rightarrow> run_scenarios p price_data pv (AList.update (name sc) r acc) scs)"

text \<open>\<^verbatim>\<open>min(items, key=...)\<close>: the first item with the least key; raises on no item.\<close>

fun min_by_from :: "('a \<Rightarrow> real) \<Rightarrow> 'a \<Rightarrow> 'a list \<Rightarrow> 'a" where
  "min_by_from k best [] = best"
| "min_by_from k best (x # xs) = min_by_from k (if k x < k best then x else best) xs"

definition py_min_by :: "('a \<Rightarrow> real) \<Rightarrow> 'a list \<Rightarrow> py_exception + 'a" where
  "py_min_by k xs = (case xs of [] \<Rightarrow> Inl ValueError | x # rest \<Rightarrow> Inr (min_by_from k x rest))"

text \<open>Python's two-argument \<^verbatim>\<open>max\<close> keeps the first argument unless the second is
  strictly greater.\<close>

definition py_max :: "real \<Rightarrow> real \<Rightarrow> real" where
  "py_max a b = (if b > a then b else a)"

definition impact_py :: "asset_impact \<Rightarrow> pyval" where
  "impact_py i = PDict
     [(''original_price'', PReal (original_price i)),
      (''new_price'', PReal (new_price i)),
      (''shock_applied'', PReal (shock_applied i)),
      (''value_change'', PReal (value_change i))]"

definition scenario_report_py :: "scenario_report \<Rightarrow> pyval" where
  "scenario_report_py r = PDict
     [(''description'', PStr (sr_description r)),
      (''portfolio_value_before'', PReal (portfolio_value_before r)),
      (''portfolio_value_after'', PReal (portfolio_value_after r)),
      (''absolute_loss'', PReal (absolute_loss r)),
      (''percentage_loss'', PReal (percentage_loss r)),
      (''asset_impacts'', PDict (map (\<lambda>(s, i). (s, impact_py i)) (sr_asset_impacts r)))]"

text \<open>
  \<^verbatim>\<open>perform_stress_test\<close>. The whole body is inside \<^verbatim>\<open>try\<close>; the handler returns
  \<^verbatim>\<open>{'error': str(e)}\<close>, modelled as \<open>Inl e\<close>. The timestamp is a parameter.
\<close>

definition perform_stress_test_body ::
  "string \<Rightarrow> portfolio \<Rightarrow> price_data \<Rightarrow> stress_scenario list option \<Rightarrow> py_exception + pyval" where
  "perform_stress_test_body now p price_data scenarios =
     (let scs = (case scenarios of None \<Rightarrow> get_default_stress_scenarios | Some s \<Rightarrow> s);
          portfolio_value = (case total_value p of None \<Rightarrow> 0 | Some v \<Rightarrow> v)
      in case run_scenarios p price_data portfolio_value [] scs of
           Inl e \<Rightarrow> Inl e
         | Inr reports \<Rightarrow>
            (case py_min_by (\<lambda>x. portfolio_value_after (snd x)) reports of
               Inl e \<Rightarrow> Inl e
             | Inr worst \<Rightarrow>
                (let avg_loss = sum_list (map (\<lambda>x. percentage_loss (snd x)) reports)
                                  / real (length reports);
                     resilience_score = py_max 0 (100 - avg_loss)
                 in Inr (PDict
                     [(''timestamp'', PStr now),
                      (''scenarios'', PDict (map (\<lambda>(n, r). (n, scenario_report_py r)) reports)),
                      (''worst_case_scenario'', PDict
                         [(''scenario_name'', PStr (fst worst)),
                          (''details'', scenario_report_py (snd worst))]),
                      (''portfolio_resilience_score'', PReal resilience_score)]))))"

text \<open>
  The handler of every \<^verbatim>\<open>try\<close> block returns \<^verbatim>\<open>{'error': str(e)}\<close>. The text
  of \<^verbatim>\<open>str(e)\<close> is approximated (Python's wording depends on the operand types).
\<close>

fun str_exc :: "py_exception \<Rightarrow> string" where
  "str_exc (KeyError k) = [CHR 0x27] @ k @ [CHR 0x27]"
| "str_exc ZeroDivisionError = ''division by zero''"
| "str_exc ValueError = ''value error''"
| "str_exc TypeError = ''type error''"
| "str_exc AttributeError = ''attribute error''"
| "str_exc IndexError = ''index out of range''"

definition error_dict :: "py_exception \<Rightarrow> pyval" where
  "error_dict e = PDict [(''error'', PStr (str_exc e))]"

definition catch :: "py_exception + pyval \<Rightarrow> pyval" where
  "catch r = (case r of Inl e \<Rightarrow> error_dict e | Inr v \<Rightarrow> v)"

definition perform_stress_test ::
  "string \<Rightarrow> portfolio \<Rightarrow> price_data \<Rightarrow> stress_scenario list option \<Rightarrow> pyval" where
  "perform_stress_test now p price_data scenarios =
     catch (perform_stress_test_body now p price_data scenarios)"

section \<open>Portfolio preparation\<close>

text \<open>
  \<^verbatim>\<open>_prepare_portfolio_data\<close>. The three lines that compute a value, the total and a
  weight multiply, add and divide floats, and the result of each operation is rounded.
  The model takes the rounding as a function \<open>rnd\<close>: \<open>round_double\<close> below is the rounding
  of IEEE doubles, the identity gives exact arithmetic.
\<close>

definition asset_of_holding :: "(real \<Rightarrow> real) \<Rightarrow> price_data \<Rightarrow> holding \<Rightarrow> asset" where
  "asset_of_holding rnd price_data h =
     (let cp = current_price_of price_data (symbol h)
      in \<lparr>symbol = symbol h, quantity = quantity h, asset_current_price = cp,
          asset_value = rnd (quantity h * cp), asset_weight = 0\<rparr>)"

definition set_weight :: "(real \<Rightarrow> real) \<Rightarrow> real \<Rightarrow> asset \<Rightarrow> asset" where
  "set_weight rnd tv a =
     a\<lparr>asset_weight := (if tv > 0 then rnd (asset_value a / tv) else 0)\<rparr>"

definition prepare_portfolio_data_rounded ::
  "(real \<Rightarrow> real) \<Rightarrow> portfolio \<Rightarrow> price_data \<Rightarrow> portfolio" where
  "prepare_portfolio_data_rounded rnd p price_data =
     (let as0 = map (asset_of_holding rnd price_data) (holdings_of p);
          tv = foldl (\<lambda>t a. rnd (t + asset_value a)) 0 as0;
          as1 = map (set_weight rnd tv) as0
      in \<lparr>pid = None, holdings = None, assets = Some as1, total_value = Some tv,
          asset_count = Some (length as1)\<rparr>)"

text \<open>The exact instance, which the assessment below uses: like the rest of this theory it
  leaves rounding out.\<close>

definition prepare_portfolio_data :: "portfolio \<Rightarrow> price_data \<Rightarrow> portfolio" where
  "prepare_portfolio_data = prepare_portfolio_data_rounded (\<lambda>x. x)"

text \<open>
  Rounding to the nearest IEEE double, ties to even, for numbers in the range of the
  normal doubles (overflow and subnormal numbers are not modelled): the exponent \<open>e\<close> of
  the binade \<open>2 ^ e \<le> |x| < 2 ^ (e + 1)\<close> is found by stepping from 0, and \<open>x\<close> is rounded to
  a multiple of \<open>2 ^ (e - 52)\<close>.
\<close>

fun binade_from :: "nat \<Rightarrow> int \<Rightarrow> real \<Rightarrow> int" where
  "binade_from 0 e x = e"
| "binade_from (Suc n) e x =
     (if x < 2 powi e then binade_from n (e - 1) x
      else if 2 powi (e + 1) \<le> x then binade_from n (e + 1) x
      else e)"

definition binade :: "real \<Rightarrow> int" where
  "binade x = binade_from 1100 0 x"

definition round_half_even :: "real \<Rightarrow> int" where
  "round_half_even y =
     (let f = \<lfloor>y\<rfloor>;
          d = y - of_int f
      in if d < 1 / 2 then f else if 1 / 2 < d then f + 1 else if even f then f else f + 1)"

definition round_double :: "real \<Rightarrow> real" where
  "round_double x =
     (if x = 0 then 0
      else (let ulp = 2 powi (binade \<bar>x\<bar> - 52)
            in sgn x * of_int (round_half_even (\<bar>x\<bar> / ulp)) * ulp))"


section \<open>The spec's shock precedence and the example inputs\<close>

text \<open>The precedence as the specification words it: exact symbol, then \<^verbatim>\<open>all\<close>, then
  \<^verbatim>\<open>others\<close>, then no shock. It is compared with \<open>shock_for\<close>, which follows the source.\<close>

definition spec_shock_for :: "(string \<rightharpoonup> real) \<Rightarrow> string \<Rightarrow> real" where
  "spec_shock_for sh s =
     (case sh s of Some x \<Rightarrow> x
      | None \<Rightarrow> (case sh ''all'' of Some a \<Rightarrow> a
         | None \<Rightarrow> (case sh ''others'' of Some ot \<Rightarrow> ot | None \<Rightarrow> 0)))"

definition btc_portfolio :: portfolio where
  "btc_portfolio = \<lparr>pid = Some ''p1'', holdings = Some [\<lparr>symbol = ''BTC'', quantity = 1\<rparr>],
     assets = None, total_value = Some 50000, asset_count = None\<rparr>"

definition btc_prices :: price_data where
  "btc_prices = [''BTC'' \<mapsto> \<lparr>current_price = Some 50000, prices = []\<rparr>]"

definition unpriced_portfolio :: portfolio where
  "unpriced_portfolio = \<lparr>pid = Some ''p0'', holdings = Some [\<lparr>symbol = ''BTC'', quantity = 2\<rparr>],
     assets = None, total_value = Some 0, asset_count = None\<rparr>"

definition six_equal_portfolio :: portfolio where
  "six_equal_portfolio = \<lparr>pid = Some ''p6'',
     holdings = Some [\<lparr>symbol = ''A'', quantity = 1\<rparr>, \<lparr>symbol = ''B'', quantity = 1\<rparr>,
                      \<lparr>symbol = ''C'', quantity = 1\<rparr>, \<lparr>symbol = ''D'', quantity = 1\<rparr>,
                      \<lparr>symbol = ''E'', quantity = 1\<rparr>, \<lparr>symbol = ''F'', quantity = 1\<rparr>],
     assets = None, total_value = None, asset_count = None\<rparr>"

definition unit_prices :: price_data where
  "unit_prices =
     [''A'' \<mapsto> \<lparr>current_price = Some 1, prices = []\<rparr>,
      ''B'' \<mapsto> \<lparr>current_price = Some 1, prices = []\<rparr>,
      ''C'' \<mapsto> \<lparr>current_price = Some 1, prices = []\<rparr>,
      ''D'' \<mapsto> \<lparr>current_price = Some 1, prices = []\<rparr>,
      ''E'' \<mapsto> \<lparr>current_price = Some 1, prices = []\<rparr>,
      ''F'' \<mapsto> \<lparr>current_price = Some 1, prices = []\<rparr>]"




section \<open>Arithmetic on numpy floats\<close>

text \<open>
  IEEE arithmetic on the extended values, without rounding, overflow and the sign of zero:
  NaN is absorbing, the difference of equal infinities and \<open>0 * inf\<close> are NaN, a finite
  nonzero number divided by zero is the infinity of its sign, and every comparison with
  NaN is false.
\<close>

definition inf_of_sign :: "real \<Rightarrow> npfloat" where
  "inf_of_sign s = (if s > 0 then PInf else if s < 0 then NInf else NaN)"

fun np_neg :: "npfloat \<Rightarrow> npfloat" where
  "np_neg (Fin a) = Fin (- a)"
| "np_neg PInf = NInf"
| "np_neg NInf = PInf"
| "np_neg NaN = NaN"

fun np_add :: "npfloat \<Rightarrow> npfloat \<Rightarrow> npfloat" where
  "np_add (Fin a) (Fin b) = Fin (a + b)"
| "np_add NaN y = NaN"
| "np_add x NaN = NaN"
| "np_add PInf NInf = NaN"
| "np_add NInf PInf = NaN"
| "np_add PInf y = PInf"
| "np_add NInf y = NInf"
| "np_add (Fin a) y = y"

definition np_sub :: "npfloat \<Rightarrow> npfloat \<Rightarrow> npfloat" where
  "np_sub x y = np_add x (np_neg y)"

fun np_sign :: "npfloat \<Rightarrow> real" where
  "np_sign (Fin a) = sgn a"
| "np_sign PInf = 1"
| "np_sign NInf = - 1"
| "np_sign NaN = 0"

fun np_mul :: "npfloat \<Rightarrow> npfloat \<Rightarrow> npfloat" where
  "np_mul (Fin a) (Fin b) = Fin (a * b)"
| "np_mul NaN y = NaN"
| "np_mul x NaN = NaN"
| "np_mul x y = inf_of_sign (np_sign x * np_sign y)"

fun np_div :: "npfloat \<Rightarrow> npfloat \<Rightarrow> npfloat" where
  "np_div (Fin a) (Fin b) = (if b = 0 then inf_of_sign a else Fin (a / b))"
| "np_div NaN y = NaN"
| "np_div x NaN = NaN"
| "np_div (Fin a) y = Fin 0"
| "np_div x (Fin b) = (if b < 0 then np_neg x else x)"
| "np_div x y = NaN"

fun np_abs :: "npfloat \<Rightarrow> npfloat" where
  "np_abs (Fin a) = Fin \<bar>a\<bar>"
| "np_abs PInf = PInf"
| "np_abs NInf = PInf"
| "np_abs NaN = NaN"

fun np_lt :: "npfloat \<Rightarrow> npfloat \<Rightarrow> bool" where
  "np_lt (Fin a) (Fin b) = (a < b)"
| "np_lt NaN y = False"
| "np_lt x NaN = False"
| "np_lt x NInf = False"
| "np_lt PInf y = False"
| "np_lt x y = True"

definition np_le :: "npfloat \<Rightarrow> npfloat \<Rightarrow> bool" where
  "np_le x y = (np_lt x y \<or> (x = y \<and> x \<noteq> NaN))"

definition np_sum :: "npfloat list \<Rightarrow> npfloat" where
  "np_sum xs = foldl np_add (Fin 0) xs"

text \<open>Python's \<^verbatim>\<open>min(a, b)\<close> and \<^verbatim>\<open>max(a, b)\<close> on floats: the first argument stays
  unless the comparison with the second succeeds, so a NaN second argument is dropped.\<close>

definition py_fmin :: "npfloat \<Rightarrow> npfloat \<Rightarrow> npfloat" where
  "py_fmin a b = (if np_lt b a then b else a)"

definition py_fmax :: "npfloat \<Rightarrow> npfloat \<Rightarrow> npfloat" where
  "py_fmax a b = (if np_lt a b then b else a)"

section \<open>The overall risk score\<close>

text \<open>\<^verbatim>\<open>d.get(k, default)\<close>: an attribute error on a value that is not a dictionary.\<close>

fun py_get :: "pyval \<Rightarrow> string \<Rightarrow> pyval \<Rightarrow> py_exception + pyval" where
  "py_get (PDict d) k dflt = Inr (case map_of d k of None \<Rightarrow> dflt | Some v \<Rightarrow> v)"
| "py_get v k dflt = Inl AttributeError"

text \<open>The chain \<^verbatim>\<open>d.get(k1, {}).get(k2, {}) ... .get(kn, default)\<close>.\<close>

fun get_path :: "pyval \<Rightarrow> string list \<Rightarrow> pyval \<Rightarrow> py_exception + pyval" where
  "get_path v [] dflt = Inr v"
| "get_path v [k] dflt = py_get v k dflt"
| "get_path v (k # ks) dflt =
     (case py_get v k (PDict []) of Inl e \<Rightarrow> Inl e | Inr w \<Rightarrow> get_path w ks dflt)"

text \<open>
  The value as an operand of the arithmetic of \<^verbatim>\<open>_calculate_overall_risk_score\<close>. A value
  that is not a number raises a type error there: at once for a dictionary, in the
  following \<^verbatim>\<open>min\<close>, \<^verbatim>\<open>abs\<close> or subtraction for a string or a list.
\<close>

fun py_num :: "pyval \<Rightarrow> py_exception + npfloat" where
  "py_num (PNum x) = Inr x"
| "py_num v = Inl TypeError"

definition get_num :: "pyval \<Rightarrow> string list \<Rightarrow> real \<Rightarrow> py_exception + npfloat" where
  "get_num ra path dflt =
     (case get_path ra path (PReal dflt) of Inl e \<Rightarrow> Inl e | Inr v \<Rightarrow> py_num v)"

text \<open>\<^verbatim>\<open>np.average(scores, weights=weights)\<close>: the weighted sum over the sum of the weights;
  numpy raises when the weights sum to zero.\<close>

definition np_average :: "npfloat list \<Rightarrow> real list \<Rightarrow> py_exception + npfloat" where
  "np_average scores weights =
     (if sum_list weights = 0 then Inl ZeroDivisionError
      else Inr (np_div (np_sum (map (\<lambda>(s, w). np_mul s (Fin w)) (zip scores weights)))
                       (Fin (sum_list weights))))"

definition calculate_overall_risk_score_body :: "pyval \<Rightarrow> py_exception + npfloat" where
  "calculate_overall_risk_score_body ra =
     (case get_num ra [''risk_metrics'', ''annual_volatility''] 0 of Inl e \<Rightarrow> Inl e
      | Inr volatility \<Rightarrow>
     (let volatility_score = py_fmin (Fin 100) (np_mul volatility (Fin 100)) in
      case get_num ra [''var_analysis'', ''var_estimates'', ''95%'', ''var_percentage''] 0 of
        Inl e \<Rightarrow> Inl e
      | Inr var_pct \<Rightarrow>
     (let var_score = py_fmin (Fin 100) (np_abs var_pct) in
      case get_num ra [''correlation_analysis'', ''average_correlation''] 0 of Inl e \<Rightarrow> Inl e
      | Inr avg_correlation \<Rightarrow>
     (let correlation_score = np_mul (np_abs avg_correlation) (Fin 100) in
      case get_num ra [''stress_test_results'', ''portfolio_resilience_score''] 50 of
        Inl e \<Rightarrow> Inl e
      | Inr resilience_score \<Rightarrow>
     (let stress_score = np_sub (Fin 100) resilience_score;
          scores = [volatility_score, var_score, correlation_score, stress_score];
          weights = [0.3, 0.25, 0.2, 0.25]
      in if scores \<noteq> [] \<and> weights \<noteq> [] then
           (case np_average scores weights of Inl e \<Rightarrow> Inl e
            | Inr overall_score \<Rightarrow> Inr (py_fmin (Fin 100) (py_fmax (Fin 0) overall_score)))
         else Inr (Fin 50))))))"

definition calculate_overall_risk_score :: "pyval \<Rightarrow> npfloat" where
  "calculate_overall_risk_score ra =
     (case calculate_overall_risk_score_body ra of Inl e \<Rightarrow> Fin 50 | Inr s \<Rightarrow> s)"

text \<open>
  The score as the specification words it: the weighted mean of the sub-scores that could
  be computed, the weights renormalised over them, and 50 when there is none. A sub-score
  is \<open>None\<close> when its metric is missing.
\<close>

definition spec_overall_score :: "real option list \<Rightarrow> real" where
  "spec_overall_score subs =
     (let present = concat (map (\<lambda>(s, w). case s of None \<Rightarrow> [] | Some v \<Rightarrow> [(v, w)])
                     (zip subs [0.3, 0.25, 0.2, 0.25 :: real]))
      in if present = [] then 50
         else sum_list (map (\<lambda>(v, w). v * w) present) / sum_list (map snd present))"

text \<open>Risk assessments for the examples: only the volatility known (100% a year); a
  volatility of 500% with every other metric at its worst; a malformed entry.\<close>

definition only_volatility :: pyval where
  "only_volatility = PDict [(''risk_metrics'', PDict [(''annual_volatility'', PReal 1)])]"

definition extreme_assessment :: pyval where
  "extreme_assessment = PDict
     [(''risk_metrics'', PDict [(''annual_volatility'', PReal 5)]),
      (''var_analysis'', PDict [(''var_estimates'',
          PDict [(''95%'', PDict [(''var_percentage'', PReal (- 400))])])]),
      (''correlation_analysis'', PDict [(''average_correlation'', PReal 1)]),
      (''stress_test_results'', PDict [(''portfolio_resilience_score'', PReal 0)])]"

definition malformed_assessment :: pyval where
  "malformed_assessment = PDict [(''risk_metrics'', PStr ''unavailable'')]"


section \<open>Return series and drawdown\<close>

definition price_record :: "real \<Rightarrow> price_point" where
  "price_record x = \<lparr>price = Some x\<rparr>"

text \<open>\<^verbatim>\<open>np.array([p['price'] for p in prices])\<close>: a key error on a record without price.\<close>

definition price_values :: "price_point list \<Rightarrow> py_exception + real list" where
  "price_values ps =
     (case those (map price ps) of None \<Rightarrow> Inl (KeyError ''price'') | Some vs \<Rightarrow> Inr vs)"

text \<open>\<^verbatim>\<open>np.diff(a)\<close> and the element-wise \<^verbatim>\<open>np.diff(a) / a[:-1]\<close>.\<close>

definition np_diff :: "real list \<Rightarrow> real list" where
  "np_diff xs = map (\<lambda>(a, b). b - a) (zip (butlast xs) (tl xs))"

definition simple_returns :: "real list \<Rightarrow> npfloat list" where
  "simple_returns arr = map (\<lambda>(d, p). np_div (Fin d) (Fin p)) (zip (np_diff arr) (butlast arr))"

definition calculate_returns :: "price_entry \<Rightarrow> py_exception + npfloat list" where
  "calculate_returns pe =
     (if length (prices pe) < 2 then Inr []
      else case price_values (prices pe) of
             Inl e \<Rightarrow> Inl e
           | Inr prices_array \<Rightarrow> Inr (simple_returns prices_array))"

text \<open>\<^verbatim>\<open>ufunc.accumulate\<close>: the running results of a binary operation.\<close>

fun accumulate_from :: "('a \<Rightarrow> 'a \<Rightarrow> 'a) \<Rightarrow> 'a \<Rightarrow> 'a list \<Rightarrow> 'a list" where
  "accumulate_from f acc [] = []"
| "accumulate_from f acc (x # xs) = f acc x # accumulate_from f (f acc x) xs"

definition accumulate :: "('a \<Rightarrow> 'a \<Rightarrow> 'a) \<Rightarrow> 'a list \<Rightarrow> 'a list" where
  "accumulate f xs = (case xs of [] \<Rightarrow> [] | x # rest \<Rightarrow> x # accumulate_from f x rest)"

definition np_cumprod :: "npfloat list \<Rightarrow> npfloat list" where
  "np_cumprod xs = accumulate np_mul xs"

text \<open>\<^verbatim>\<open>np.maximum\<close> and \<^verbatim>\<open>np.minimum\<close> propagate NaN.\<close>

definition np_maximum :: "npfloat \<Rightarrow> npfloat \<Rightarrow> npfloat" where
  "np_maximum a b = (if a = NaN \<or> b = NaN then NaN else if np_lt a b then b else a)"

definition np_minimum :: "npfloat \<Rightarrow> npfloat \<Rightarrow> npfloat" where
  "np_minimum a b = (if a = NaN \<or> b = NaN then NaN else if np_lt b a then b else a)"

text \<open>\<^verbatim>\<open>np.min\<close> of an array: a value error on the empty array.\<close>

definition np_min :: "npfloat list \<Rightarrow> py_exception + npfloat" where
  "np_min xs = (case xs of [] \<Rightarrow> Inl ValueError | x # rest \<Rightarrow> Inr (foldl np_minimum x rest))"

text \<open>The three array lines shared by \<^verbatim>\<open>_calculate_max_drawdown\<close> and
  \<^verbatim>\<open>_calculate_portfolio_max_drawdown\<close>, from the returns to the result.\<close>

definition drawdown_of_returns :: "npfloat list \<Rightarrow> py_exception + npfloat" where
  "drawdown_of_returns rs =
     (let cumulative = np_cumprod (map (np_add (Fin 1)) rs);
          running_max = accumulate np_maximum cumulative;
          drawdown = map (\<lambda>(c, m). np_div (np_sub c m) m) (zip cumulative running_max)
      in case np_min drawdown of Inl e \<Rightarrow> Inl e | Inr m \<Rightarrow> Inr (np_abs m))"

definition calculate_max_drawdown :: "price_entry \<Rightarrow> py_exception + npfloat" where
  "calculate_max_drawdown pe =
     (if length (prices pe) < 2 then Inr (Fin 0)
      else case price_values (prices pe) of
             Inl e \<Rightarrow> Inl e
           | Inr prices_array \<Rightarrow> drawdown_of_returns (simple_returns prices_array))"

text \<open>The return series as the specification words it: records with a zero or negative
  price are dropped before differencing.\<close>

definition spec_calculate_returns :: "real list \<Rightarrow> real list" where
  "spec_calculate_returns ps =
     (let valid = filter (\<lambda>p. p > 0) ps
      in map (\<lambda>(a, b). (b - a) / a) (zip (butlast valid) (tl valid)))"

definition series :: "real list \<Rightarrow> price_entry" where
  "series ps = \<lparr>current_price = None, prices = map price_record ps\<rparr>"


section \<open>Library statistics\<close>

text \<open>
  The functions that the agent takes from numpy, scipy and pandas and that have no
  executable counterpart on the reals are parameters of the model: the square root, the
  inverse normal distribution, skewness and excess kurtosis of an array, and the
  correlation, covariance and sample standard deviation of the columns of a data frame.
\<close>

record stats_lib =
  numpy_sqrt :: "real \<Rightarrow> real"
  scipy_norm_ppf :: "real \<Rightarrow> npfloat"
  scipy_skew :: "npfloat list \<Rightarrow> npfloat"
  scipy_kurtosis :: "npfloat list \<Rightarrow> npfloat"
  pandas_corr :: "npfloat list \<Rightarrow> npfloat list \<Rightarrow> npfloat"
  pandas_cov :: "npfloat list \<Rightarrow> npfloat list \<Rightarrow> npfloat"
  pandas_std :: "npfloat list \<Rightarrow> npfloat"

section \<open>Value at Risk\<close>

text \<open>\<^verbatim>\<open>np.mean\<close>, \<^verbatim>\<open>np.sqrt\<close> and \<^verbatim>\<open>np.std\<close> (population standard deviation).\<close>

definition np_mean :: "npfloat list \<Rightarrow> npfloat" where
  "np_mean xs = np_div (np_sum xs) (Fin (real (length xs)))"

fun np_sqrt :: "stats_lib \<Rightarrow> npfloat \<Rightarrow> npfloat" where
  "np_sqrt lib (Fin a) = (if a < 0 then NaN else Fin (numpy_sqrt lib a))"
| "np_sqrt lib PInf = PInf"
| "np_sqrt lib NInf = NaN"
| "np_sqrt lib NaN = NaN"

definition np_std :: "stats_lib \<Rightarrow> npfloat list \<Rightarrow> npfloat" where
  "np_std lib xs =
     (let m = np_mean xs
      in np_sqrt lib (np_mean (map (\<lambda>x. let d = np_abs (np_sub x m) in np_mul d d) xs)))"

text \<open>
  \<^verbatim>\<open>np.percentile(a, q)\<close> with numpy's default linear interpolation. The data are sorted
  (minus infinity first, plus infinity last); the virtual index is \<open>q / 100 * (n - 1)\<close>;
  its floor and the next index, kept inside the array, give the two neighbours and its
  fraction the weight; the neighbours are interpolated as numpy's \<^verbatim>\<open>_lerp\<close> does, in the
  arithmetic of the floats, so that infinite neighbours can give NaN. numpy rejects a
  percentile outside [0, 100] and answers NaN for an array that holds NaN (and for an
  empty one, which the agent never passes).
\<close>

fun np_insort :: "npfloat \<Rightarrow> npfloat list \<Rightarrow> npfloat list" where
  "np_insort x [] = [x]"
| "np_insort x (y # ys) = (if np_lt y x then y # np_insort x ys else x # y # ys)"

definition np_sort :: "npfloat list \<Rightarrow> npfloat list" where
  "np_sort xs = foldr np_insort xs []"

definition np_lerp :: "npfloat \<Rightarrow> npfloat \<Rightarrow> real \<Rightarrow> npfloat" where
  "np_lerp a b t =
     (if 1 / 2 \<le> t then np_sub b (np_mul (np_sub b a) (Fin (1 - t)))
      else np_add a (np_mul (np_sub b a) (Fin t)))"

definition np_interpolate_at :: "npfloat list \<Rightarrow> real \<Rightarrow> npfloat" where
  "np_interpolate_at s pos =
     (let j = nat \<lfloor>pos\<rfloor>;
          g = pos - real j
      in np_lerp (s ! j) (s ! min (j + 1) (length s - 1)) g)"

definition np_percentile :: "npfloat list \<Rightarrow> real \<Rightarrow> py_exception + npfloat" where
  "np_percentile a q =
     (if q < 0 \<or> 100 < q then Inl ValueError
      else if a = [] \<or> NaN \<in> set a then Inr NaN
      else Inr (np_interpolate_at (np_sort a) (q / 100 * real (length a - 1))))"

text \<open>The percentile of finite data over the reals, to state what the interpolation gives
  when every observation is a finite number.\<close>

definition interpolate_at :: "real list \<Rightarrow> real \<Rightarrow> real" where
  "interpolate_at s pos =
     (let j = nat \<lfloor>pos\<rfloor>;
          g = pos - real j;
          lo = s ! j;
          hi = s ! min (j + 1) (length s - 1)
      in lo + (hi - lo) * g)"

definition percentile_linear :: "real list \<Rightarrow> real \<Rightarrow> real" where
  "percentile_linear xs q = interpolate_at (sort xs) (q / 100 * real (length xs - 1))"

text \<open>The first loop of \<^verbatim>\<open>_calculate_portfolio_returns\<close>: the returns of every asset that
  has some, and the least length (\<open>None\<close> is \<^verbatim>\<open>float('inf')\<close>).\<close>

fun collect_asset_returns ::
  "price_data \<Rightarrow> (string \<times> npfloat list) list \<times> nat option \<Rightarrow> asset list \<Rightarrow>
   py_exception + (string \<times> npfloat list) list \<times> nat option" where
  "collect_asset_returns price_data acc [] = Inr acc"
| "collect_asset_returns price_data (asset_returns, min_length) (a # rest) =
     (case calculate_returns (entry_of price_data (symbol a)) of
        Inl e \<Rightarrow> Inl e
      | Inr returns \<Rightarrow>
          if length returns > 0 then
            collect_asset_returns price_data
              (AList.update (symbol a) returns asset_returns,
               Some (case min_length of None \<Rightarrow> length returns
                     | Some m \<Rightarrow> min m (length returns))) rest
          else collect_asset_returns price_data (asset_returns, min_length) rest)"

text \<open>The inner loop: the weighted return at the position \<open>k\<close> from the end,
  \<^verbatim>\<open>asset_returns[symbol][-k]\<close>, an index error outside the array.\<close>

fun weighted_return ::
  "(string \<times> npfloat list) list \<Rightarrow> nat \<Rightarrow> npfloat \<Rightarrow> asset list \<Rightarrow> py_exception + npfloat" where
  "weighted_return asset_returns k acc [] = Inr acc"
| "weighted_return asset_returns k acc (a # rest) =
     (case map_of asset_returns (symbol a) of
        None \<Rightarrow> weighted_return asset_returns k acc rest
      | Some rs \<Rightarrow>
          if 0 < k \<and> k \<le> length rs then
            weighted_return asset_returns k
              (np_add acc (np_mul (Fin (asset_weight a)) (rs ! (length rs - k)))) rest
          else Inl IndexError)"

fun weighted_returns ::
  "(string \<times> npfloat list) list \<Rightarrow> asset list \<Rightarrow> nat \<Rightarrow> nat list \<Rightarrow>
   py_exception + npfloat list" where
  "weighted_returns asset_returns as min_length [] = Inr []"
| "weighted_returns asset_returns as min_length (i # is) =
     (case weighted_return asset_returns (min_length - i) (Fin 0) as of
        Inl e \<Rightarrow> Inl e
      | Inr r \<Rightarrow>
         (case weighted_returns asset_returns as min_length is of
            Inl e \<Rightarrow> Inl e
          | Inr rs \<Rightarrow> Inr (r # rs)))"

definition calculate_portfolio_returns ::
  "portfolio \<Rightarrow> price_data \<Rightarrow> py_exception + npfloat list" where
  "calculate_portfolio_returns portfolio_data price_data =
     (case assets portfolio_data of
        None \<Rightarrow> Inl (KeyError ''assets'')
      | Some as \<Rightarrow>
         (case collect_asset_returns price_data ([], None) as of
            Inl e \<Rightarrow> Inl e
          | Inr (asset_returns, min_length) \<Rightarrow>
              if asset_returns = [] \<or> min_length = Some 0 then Inr []
              else (case min_length of
                      None \<Rightarrow> Inl TypeError
                    | Some m \<Rightarrow> weighted_returns asset_returns as m [0..<m])))"

text \<open>The key \<^verbatim>\<open>f'{confidence:.0%}'\<close>: the percentage rounded to an integer, in decimal,
  followed by the percent sign (Python rounds a tie by the binary value of the float).\<close>

fun string_of_nat :: "nat \<Rightarrow> string" where
  "string_of_nat n =
     (if n < 10 then [''0123456789'' ! n]
      else string_of_nat (n div 10) @ [''0123456789'' ! (n mod 10)])"

definition format_percent :: "real \<Rightarrow> string" where
  "format_percent c =
     (let n = round (c * 100)
      in (if n < 0 then ''-'' else []) @ string_of_nat (nat \<bar>n\<bar>) @ ''%'')"

text \<open>The first loop of \<^verbatim>\<open>calculate_var\<close>: historical VaR and expected shortfall for
  every confidence level, stored under the formatted level.\<close>

fun historical_var_loop ::
  "npfloat list \<Rightarrow> real \<Rightarrow> (string \<times> pyval) list \<times> (string \<times> pyval) list \<Rightarrow> real list \<Rightarrow>
   py_exception + (string \<times> pyval) list \<times> (string \<times> pyval) list" where
  "historical_var_loop portfolio_returns tv acc [] = Inr acc"
| "historical_var_loop portfolio_returns tv (var_estimates, expected_shortfall) (confidence # rest) =
     (let var_percentile = (1 - confidence) * 100
      in case np_percentile portfolio_returns var_percentile of
           Inl e \<Rightarrow> Inl e
         | Inr var_value \<Rightarrow>
            (let tail_returns = filter (\<lambda>r. np_le r var_value) portfolio_returns;
                 es = (if length tail_returns > 0 then np_mean tail_returns else var_value)
             in historical_var_loop portfolio_returns tv
                  (AList.update (format_percent confidence)
                     (PDict [(''var_absolute'', PNum var_value),
                             (''var_percentage'', PNum (np_mul var_value (Fin 100))),
                             (''var_dollar'', PNum (np_mul var_value (Fin tv)))])
                     var_estimates,
                   AList.update (format_percent confidence)
                     (PDict [(''es_absolute'', PNum es),
                             (''es_percentage'', PNum (np_mul es (Fin 100))),
                             (''es_dollar'', PNum (np_mul es (Fin tv)))])
                     expected_shortfall) rest))"

text \<open>The second loop.\<close>

definition parametric_var_loop ::
  "stats_lib \<Rightarrow> npfloat \<Rightarrow> npfloat \<Rightarrow> real list \<Rightarrow> (string \<times> pyval) list" where
  "parametric_var_loop lib returns_mean returns_std confidence_levels =
     foldl (\<lambda>acc confidence.
        let z_score = scipy_norm_ppf lib (1 - confidence);
            parametric_var = np_add returns_mean (np_mul z_score returns_std)
        in AList.update (format_percent confidence)
             (PDict [(''var_absolute'', PNum parametric_var),
                     (''var_percentage'', PNum (np_mul parametric_var (Fin 100)))]) acc)
       [] confidence_levels"

definition calculate_var_body ::
  "stats_lib \<Rightarrow> string \<Rightarrow> portfolio \<Rightarrow> price_data \<Rightarrow> real list \<Rightarrow>
   py_exception + pyval" where
  "calculate_var_body lib now p price_data confidence_levels =
     (case calculate_portfolio_returns p price_data of
        Inl e \<Rightarrow> Inl e
      | Inr portfolio_returns \<Rightarrow>
          if length portfolio_returns < 30 then
            Inr (PDict [(''error'', PStr ''Insufficient data for VaR calculation'')])
          else
            (case historical_var_loop portfolio_returns
                    (case total_value p of None \<Rightarrow> 0 | Some v \<Rightarrow> v) ([], []) confidence_levels of
               Inl e \<Rightarrow> Inl e
             | Inr (var_estimates, expected_shortfall) \<Rightarrow>
                 Inr (PDict
                   [(''timestamp'', PStr now),
                    (''confidence_levels'', PList (map PReal confidence_levels)),
                    (''var_estimates'', PDict var_estimates),
                    (''expected_shortfall'', PDict expected_shortfall),
                    (''methodology'', PStr ''historical_simulation''),
                    (''parametric_var'', PDict
                       (parametric_var_loop lib (np_mean portfolio_returns)
                          (np_std lib portfolio_returns) confidence_levels))])))"

definition calculate_var ::
  "stats_lib \<Rightarrow> string \<Rightarrow> portfolio \<Rightarrow> price_data \<Rightarrow> real list \<Rightarrow> pyval" where
  "calculate_var lib now p price_data confidence_levels =
     catch (calculate_var_body lib now p price_data confidence_levels)"

definition default_confidence_levels :: "real list" where
  "default_confidence_levels = [0.95, 0.99]"

declare string_of_nat.simps [simp del]

text \<open>An example for the VaR: one asset with 31 daily prices, a crash on the first day
  and then alternating days of +100% and -50%.\<close>

definition crash_prices :: "real list" where
  "crash_prices =
     [100, 10, 20, 10, 20, 10, 20, 10, 20, 10, 20, 10, 20, 10, 20, 10,
      20, 10, 20, 10, 20, 10, 20, 10, 20, 10, 20, 10, 20, 10, 20]"

definition crash_returns :: "real list" where
  "crash_returns =
     [- 0.9, 1, - 0.5, 1, - 0.5, 1, - 0.5, 1, - 0.5, 1, - 0.5, 1, - 0.5, 1, - 0.5,
      1, - 0.5, 1, - 0.5, 1, - 0.5, 1, - 0.5, 1, - 0.5, 1, - 0.5, 1, - 0.5, 1]"

definition crash_price_data :: price_data where
  "crash_price_data = [''BTC'' \<mapsto> \<lparr>current_price = Some 20, prices = map price_record crash_prices\<rparr>]"

definition crash_portfolio :: portfolio where
  "crash_portfolio = \<lparr>pid = None, holdings = None,
     assets = Some [\<lparr>symbol = ''BTC'', quantity = 1, asset_current_price = 20,
                     asset_value = 20, asset_weight = 1\<rparr>],
     total_value = Some 20, asset_count = Some 1\<rparr>"

text \<open>A second example: trading halts at price 0 for two days, so that the returns hold
  -1, then NaN (0 / 0), then an infinity (50 / 0), then 27 zeros.\<close>

definition halted_prices :: "real list" where
  "halted_prices =
     [100, 0, 0, 50, 50, 50, 50, 50, 50, 50, 50, 50, 50, 50, 50, 50,
      50, 50, 50, 50, 50, 50, 50, 50, 50, 50, 50, 50, 50, 50, 50]"

definition halted_price_data :: price_data where
  "halted_price_data =
     [''BTC'' \<mapsto> \<lparr>current_price = Some 50, prices = map price_record halted_prices\<rparr>]"

definition halted_portfolio :: portfolio where
  "halted_portfolio = \<lparr>pid = None, holdings = None,
     assets = Some [\<lparr>symbol = ''BTC'', quantity = 1, asset_current_price = 50,
                     asset_value = 50, asset_weight = 1\<rparr>],
     total_value = Some 50, asset_count = Some 1\<rparr>"

text \<open>
  A library instance for the examples. It holds only what they evaluate: the two normal
  quantiles of the default confidence levels and the square root of 365, to a few
  decimals; the other entries are stand-ins.
\<close>

definition table_lib :: stats_lib where
  "table_lib =
     \<lparr>numpy_sqrt = (\<lambda>x. if x = 365 then 19.105 else if x = 0 then 0 else 1),
      scipy_norm_ppf = (\<lambda>x. if x = 1 - 0.95 then Fin (- 1.6449)
                            else if x = 1 - 0.99 then Fin (- 2.3263) else NaN),
      scipy_skew = (\<lambda>xs. NaN),
      scipy_kurtosis = (\<lambda>xs. NaN),
      pandas_corr = (\<lambda>xs ys. if xs = ys then Fin 1 else NaN),
      pandas_cov = (\<lambda>xs ys. NaN),
      pandas_std = (\<lambda>xs. NaN)\<rparr>"


section \<open>Risk of a single asset\<close>

definition risk_free_rate :: real where
  "risk_free_rate = 0.02"

text \<open>\<^verbatim>\<open>a[-n:]\<close> for \<open>n > 0\<close>: the last \<open>n\<close> elements.\<close>

definition last_n :: "nat \<Rightarrow> 'a list \<Rightarrow> 'a list" where
  "last_n n xs = drop (length xs - n) xs"

definition calculate_volatility :: "stats_lib \<Rightarrow> price_entry \<Rightarrow> py_exception + npfloat" where
  "calculate_volatility lib pe =
     (case calculate_returns pe of
        Inl e \<Rightarrow> Inl e
      | Inr returns \<Rightarrow>
          if length returns < 30 then Inr (Fin 0)
          else Inr (np_mul (np_std lib (last_n 30 returns)) (Fin (numpy_sqrt lib 365))))"

definition calculate_beta :: "stats_lib \<Rightarrow> price_entry \<Rightarrow> py_exception + npfloat" where
  "calculate_beta lib pe =
     (case calculate_returns pe of
        Inl e \<Rightarrow> Inl e
      | Inr returns \<Rightarrow>
          if length returns < 30 then Inr (Fin 1)
          else Inr (np_div (np_std lib returns) (Fin 0.02)))"

definition calculate_sharpe_ratio :: "stats_lib \<Rightarrow> price_entry \<Rightarrow> py_exception + npfloat" where
  "calculate_sharpe_ratio lib pe =
     (case calculate_returns pe of
        Inl e \<Rightarrow> Inl e
      | Inr returns \<Rightarrow>
          if length returns = 0 then Inr (Fin 0)
          else (let excess_returns = np_sub (np_mean returns) (Fin (risk_free_rate / 365))
                in Inr (if np_lt (Fin 0) (np_std lib returns)
                        then np_div excess_returns (np_std lib returns) else Fin 0)))"

definition assess_asset_risk :: "stats_lib \<Rightarrow> asset \<Rightarrow> price_entry \<Rightarrow> py_exception + pyval" where
  "assess_asset_risk lib a pe =
     (case calculate_volatility lib pe of Inl e \<Rightarrow> Inl e | Inr volatility \<Rightarrow>
      case calculate_max_drawdown pe of Inl e \<Rightarrow> Inl e | Inr max_drawdown \<Rightarrow>
      case calculate_beta lib pe of Inl e \<Rightarrow> Inl e | Inr beta \<Rightarrow>
      case calculate_sharpe_ratio lib pe of Inl e \<Rightarrow> Inl e | Inr sharpe_ratio \<Rightarrow>
      case calculate_volatility lib pe of Inl e \<Rightarrow> Inl e | Inr volatility2 \<Rightarrow>
        Inr (PDict
          [(''symbol'', PStr (symbol a)),
           (''weight'', PReal (asset_weight a)),
           (''volatility'', PNum volatility),
           (''max_drawdown'', PNum max_drawdown),
           (''beta'', PNum beta),
           (''sharpe_ratio'', PNum sharpe_ratio),
           (''risk_contribution'', PNum (np_mul (Fin (asset_weight a)) volatility2))]))"

section \<open>Portfolio risk metrics\<close>

definition calculate_sortino_ratio :: "stats_lib \<Rightarrow> npfloat list \<Rightarrow> npfloat" where
  "calculate_sortino_ratio lib returns =
     (if length returns = 0 then Fin 0
      else (let excess_returns = np_sub (np_mean returns) (Fin (risk_free_rate / 365));
                downside_returns = filter (\<lambda>r. np_lt r (Fin 0)) returns;
                downside_std = (if length downside_returns > 0 then np_std lib downside_returns
                                else np_std lib returns)
            in if np_lt (Fin 0) downside_std then np_div excess_returns downside_std
               else Fin 0))"

definition calculate_portfolio_max_drawdown :: "npfloat list \<Rightarrow> py_exception + npfloat" where
  "calculate_portfolio_max_drawdown returns =
     (if length returns = 0 then Inr (Fin 0) else drawdown_of_returns returns)"

definition calculate_portfolio_risk_metrics_body ::
  "stats_lib \<Rightarrow> portfolio \<Rightarrow> price_data \<Rightarrow> py_exception + pyval" where
  "calculate_portfolio_risk_metrics_body lib portfolio_data price_data =
     (case calculate_portfolio_returns portfolio_data price_data of
        Inl e \<Rightarrow> Inl e
      | Inr portfolio_returns \<Rightarrow>
          if length portfolio_returns = 0 then
            Inr (PDict [(''error'', PStr ''No return data available'')])
          else
            (let returns_mean = np_mean portfolio_returns;
                 returns_std = np_std lib portfolio_returns;
                 returns_skew = scipy_skew lib portfolio_returns;
                 returns_kurtosis = scipy_kurtosis lib portfolio_returns;
                 sharpe_ratio = (if np_lt (Fin 0) returns_std
                    then np_div (np_sub returns_mean (Fin (risk_free_rate / 365))) returns_std
                    else Fin 0);
                 sortino_ratio = calculate_sortino_ratio lib portfolio_returns
             in case calculate_portfolio_max_drawdown portfolio_returns of
                  Inl e \<Rightarrow> Inl e
                | Inr max_drawdown \<Rightarrow>
               (case np_percentile portfolio_returns 5 of Inl e \<Rightarrow> Inl e | Inr var_95 \<Rightarrow>
                case np_percentile portfolio_returns 1 of Inl e \<Rightarrow> Inl e | Inr var_99 \<Rightarrow>
                  Inr (PDict
                    [(''daily_return_mean'', PNum returns_mean),
                     (''daily_volatility'', PNum returns_std),
                     (''annual_volatility'', PNum (np_mul returns_std (Fin (numpy_sqrt lib 365)))),
                     (''sharpe_ratio'', PNum sharpe_ratio),
                     (''sortino_ratio'', PNum sortino_ratio),
                     (''max_drawdown'', PNum max_drawdown),
                     (''skewness'', PNum returns_skew),
                     (''kurtosis'', PNum returns_kurtosis),
                     (''var_95'', PNum var_95),
                     (''var_99'', PNum var_99)]))))"

definition calculate_portfolio_risk_metrics :: "stats_lib \<Rightarrow> portfolio \<Rightarrow> price_data \<Rightarrow> pyval" where
  "calculate_portfolio_risk_metrics lib portfolio_data price_data =
     catch (calculate_portfolio_risk_metrics_body lib portfolio_data price_data)"

section \<open>Correlation analysis\<close>

text \<open>The loop that gathers the returns of every symbol that has some.\<close>

fun collect_symbol_returns ::
  "price_data \<Rightarrow> (string \<times> npfloat list) list \<times> nat option \<Rightarrow> string list \<Rightarrow>
   py_exception + (string \<times> npfloat list) list \<times> nat option" where
  "collect_symbol_returns price_data acc [] = Inr acc"
| "collect_symbol_returns price_data (returns_data, min_length) (s # rest) =
     (case calculate_returns (entry_of price_data s) of
        Inl e \<Rightarrow> Inl e
      | Inr returns \<Rightarrow>
          if length returns > 0 then
            collect_symbol_returns price_data
              (AList.update s returns returns_data,
               Some (case min_length of None \<Rightarrow> length returns
                     | Some m \<Rightarrow> min m (length returns))) rest
          else collect_symbol_returns price_data (returns_data, min_length) rest)"

text \<open>The entries above the diagonal of a matrix over the columns, row by row.\<close>

definition upper_pairs :: "nat \<Rightarrow> (nat \<times> nat) list" where
  "upper_pairs n = concat (map (\<lambda>i. map (\<lambda>j. (i, j)) [i + 1..<n]) [0..<n])"

definition np_dot :: "npfloat list \<Rightarrow> npfloat list \<Rightarrow> npfloat" where
  "np_dot xs ys = np_sum (map (\<lambda>(x, y). np_mul x y) (zip xs ys))"

text \<open>\<^verbatim>\<open>_calculate_portfolio_volatility\<close>: numpy refuses the product when the number of
  weights differs from the number of columns, and the bare handler returns 0.0.\<close>

definition calculate_portfolio_volatility ::
  "stats_lib \<Rightarrow> real list \<Rightarrow> npfloat list list \<Rightarrow> npfloat" where
  "calculate_portfolio_volatility lib weights cols =
     (if length weights \<noteq> length cols then Fin 0
      else (let w = map Fin weights;
                cov_w = map (\<lambda>ci. np_dot (map (\<lambda>cj. pandas_cov lib ci cj) cols) w) cols
            in np_sqrt lib (np_dot w cov_w)))"

definition categorize_diversification :: "npfloat \<Rightarrow> string" where
  "categorize_diversification avg_correlation =
     (if np_lt avg_correlation (Fin 0.2) then ''excellent''
      else if np_lt avg_correlation (Fin 0.4) then ''good''
      else if np_lt avg_correlation (Fin 0.6) then ''moderate''
      else if np_lt avg_correlation (Fin 0.8) then ''poor''
      else ''very_poor'')"

text \<open>\<^verbatim>\<open>sorted(pairs, key=..., reverse=True)\<close>: a stable sort by descending key.\<close>

fun insert_desc :: "('a \<Rightarrow> npfloat) \<Rightarrow> 'a \<Rightarrow> 'a list \<Rightarrow> 'a list" where
  "insert_desc k x [] = [x]"
| "insert_desc k x (y # ys) =
     (if np_lt (k y) (k x) then x # y # ys else y # insert_desc k x ys)"

definition sorted_desc :: "('a \<Rightarrow> npfloat) \<Rightarrow> 'a list \<Rightarrow> 'a list" where
  "sorted_desc k xs = foldl (\<lambda>acc x. insert_desc k x acc) [] xs"

definition find_highly_correlated_pairs ::
  "stats_lib \<Rightarrow> (string \<times> npfloat list) list \<Rightarrow> real \<Rightarrow> pyval list" where
  "find_highly_correlated_pairs lib cols threshold =
     (let pairs = filter (\<lambda>(a1, a2, c). np_le (Fin threshold) (np_abs c))
            (map (\<lambda>(i, j). (fst (cols ! i), fst (cols ! j),
                             pandas_corr lib (snd (cols ! i)) (snd (cols ! j))))
                 (upper_pairs (length cols)))
      in map (\<lambda>(a1, a2, c). PDict [(''asset1'', PStr a1), (''asset2'', PStr a2),
                                    (''correlation'', PNum c)])
           (sorted_desc (\<lambda>(a1, a2, c). np_abs c) pairs))"

text \<open>The generator sum of the weighted volatilities: \<^verbatim>\<open>returns_df.iloc[:, i]\<close> raises
  an index error when there are more weights than columns.\<close>

fun weighted_avg_volatility ::
  "stats_lib \<Rightarrow> real list \<Rightarrow> npfloat list list \<Rightarrow> npfloat \<Rightarrow> nat list \<Rightarrow> py_exception + npfloat" where
  "weighted_avg_volatility lib weights cols acc [] = Inr acc"
| "weighted_avg_volatility lib weights cols acc (i # is) =
     (if i < length cols then
        weighted_avg_volatility lib weights cols
          (np_add acc (np_mul (Fin (weights ! i)) (pandas_std lib (cols ! i)))) is
      else Inl IndexError)"

definition analyze_portfolio_correlations_body ::
  "stats_lib \<Rightarrow> portfolio \<Rightarrow> price_data \<Rightarrow> py_exception + pyval" where
  "analyze_portfolio_correlations_body lib portfolio_data price_data =
     (case assets portfolio_data of
        None \<Rightarrow> Inl (KeyError ''assets'')
      | Some as \<Rightarrow>
     (let symbols = map symbol as in
      if length symbols < 2 then
        Inr (PDict [(''message'', PStr ''Need at least 2 assets for correlation analysis'')])
      else
     (case collect_symbol_returns price_data ([], None) symbols of
        Inl e \<Rightarrow> Inl e
      | Inr (returns_data, min_length) \<Rightarrow>
     (case (if length returns_data < 2 then None
            else case min_length of None \<Rightarrow> None
                 | Some m \<Rightarrow> if m < 10 then None else Some m) of
        None \<Rightarrow> Inr (PDict [(''error'', PStr ''Insufficient data for correlation analysis'')])
      | Some m \<Rightarrow>
     (let aligned_returns = map (\<lambda>(s, rs). (s, last_n m rs)) returns_data;
          cols = map snd aligned_returns;
          corr = (\<lambda>i j. pandas_corr lib (cols ! i) (cols ! j));
          upper = map (\<lambda>(i, j). corr i j) (upper_pairs (length cols));
          avg_correlation = np_mean upper;
          max_correlation = foldl np_maximum (hd upper) (tl upper);
          min_correlation = foldl np_minimum (hd upper) (tl upper);
          weights = map asset_weight (filter (\<lambda>a. symbol a \<in> set symbols) as);
          portfolio_volatility = calculate_portfolio_volatility lib weights cols
      in case weighted_avg_volatility lib weights cols (Fin 0) [0..<length weights] of
           Inl e \<Rightarrow> Inl e
         | Inr wav \<Rightarrow>
             Inr (PDict
               [(''correlation_matrix'', PDict
                   (map (\<lambda>j. (fst (aligned_returns ! j), PDict
                      (map (\<lambda>i. (fst (aligned_returns ! i), PNum (corr i j)))
                         [0..<length cols]))) [0..<length cols])),
                (''average_correlation'', PNum avg_correlation),
                (''max_correlation'', PNum max_correlation),
                (''min_correlation'', PNum min_correlation),
                (''diversification_ratio'', PNum
                   (if np_lt (Fin 0) portfolio_volatility then np_div wav portfolio_volatility
                    else Fin 1)),
                (''diversification_level'', PStr (categorize_diversification avg_correlation)),
                (''highly_correlated_pairs'',
                   PList (find_highly_correlated_pairs lib aligned_returns 0.8))]))))))"

definition analyze_portfolio_correlations :: "stats_lib \<Rightarrow> portfolio \<Rightarrow> price_data \<Rightarrow> pyval" where
  "analyze_portfolio_correlations lib portfolio_data price_data =
     catch (analyze_portfolio_correlations_body lib portfolio_data price_data)"

text \<open>What the specification asks of the analysis of a single asset: a diversification
  ratio of 1.0 next to the message.\<close>

definition spec_reports_single_asset :: "pyval \<Rightarrow> bool" where
  "spec_reports_single_asset r =
     (py_get r ''diversification_ratio'' (PStr ''absent'') = Inr (PReal 1)
      \<and> (case py_get r ''message'' (PDict []) of Inr (PStr m) \<Rightarrow> True | _ \<Rightarrow> False)
      \<and> py_get r ''correlation_matrix'' (PStr ''absent'') = Inr (PStr ''absent''))"


section \<open>Risk level and recommendations\<close>

definition categorize_risk_level :: "npfloat \<Rightarrow> string" where
  "categorize_risk_level risk_score =
     (if np_lt risk_score (Fin 20) then ''very_low''
      else if np_lt risk_score (Fin 40) then ''low''
      else if np_lt risk_score (Fin 60) then ''medium''
      else if np_lt risk_score (Fin 80) then ''high''
      else ''very_high'')"

text \<open>\<^verbatim>\<open>risk.get('risk_level') in ['high', 'very_high']\<close> for the items of
  \<^verbatim>\<open>asset_risks\<close>: an attribute error on an item that is not a dictionary.\<close>

fun high_risk_assets_of :: "(string \<times> pyval) list \<Rightarrow> py_exception + string list" where
  "high_risk_assets_of [] = Inr []"
| "high_risk_assets_of ((s, PDict risk) # rest) =
     (case high_risk_assets_of rest of
        Inl e \<Rightarrow> Inl e
      | Inr hs \<Rightarrow>
          Inr (if map_of risk ''risk_level'' = Some (PStr ''high'')
                  \<or> map_of risk ''risk_level'' = Some (PStr ''very_high'')
               then s # hs else hs))"
| "high_risk_assets_of ((s, v) # rest) = Inl AttributeError"

text \<open>\<^verbatim>\<open>', '.join(xs)\<close>.\<close>

fun join_comma :: "string list \<Rightarrow> string" where
  "join_comma [] = []"
| "join_comma [x] = x"
| "join_comma (x # xs) = x @ '', '' @ join_comma xs"

text \<open>
  \<^verbatim>\<open>_generate_risk_recommendations\<close>. The rules are kept in the order of the source; each
  is a list that is appended when its condition holds.
\<close>

definition level_rule :: "pyval \<Rightarrow> string list" where
  "level_rule risk_level =
     (if risk_level = PStr ''high'' \<or> risk_level = PStr ''very_high''
      then [''Consider reducing position sizes to lower overall portfolio risk'',
            ''Implement stop-loss orders to limit downside exposure'']
      else [])"

definition volatility_rule :: "npfloat \<Rightarrow> string list" where
  "volatility_rule volatility =
     (if np_lt (Fin 1) volatility
      then [''Portfolio exhibits very high volatility - consider diversification'']
      else [])"

definition correlation_rule :: "npfloat \<Rightarrow> string list" where
  "correlation_rule avg_correlation =
     (if np_lt (Fin 0.7) avg_correlation
      then [''High correlation between assets - consider adding uncorrelated assets'']
      else [])"

definition var_rule :: "npfloat \<Rightarrow> string list" where
  "var_rule var_pct =
     (if np_lt (Fin 10) (np_abs var_pct)
      then [''High Value at Risk detected - consider hedging strategies'']
      else [])"

definition resilience_rule :: "npfloat \<Rightarrow> string list" where
  "resilience_rule resilience_score =
     (if np_lt resilience_score (Fin 30)
      then [''Portfolio shows low resilience to stress scenarios'']
      else [])"

definition asset_rule :: "string list \<Rightarrow> string list" where
  "asset_rule high_risk_assets =
     (if high_risk_assets \<noteq> []
      then [''High-risk assets detected: '' @ join_comma high_risk_assets]
      else [])"

definition items_of :: "pyval \<Rightarrow> py_exception + (string \<times> pyval) list" where
  "items_of v = (case v of PDict items \<Rightarrow> Inr items | _ \<Rightarrow> Inl AttributeError)"

text \<open>Sequencing of steps that may raise: the first exception ends the sequence.\<close>

definition bind_exc ::
  "py_exception + 'a \<Rightarrow> ('a \<Rightarrow> py_exception + 'b) \<Rightarrow> py_exception + 'b" where
  "bind_exc m f = (case m of Inl e \<Rightarrow> Inl e | Inr v \<Rightarrow> f v)"

definition generate_risk_recommendations :: "pyval \<Rightarrow> py_exception + string list" where
  "generate_risk_recommendations ra =
     bind_exc (py_get ra ''risk_level'' (PStr ''medium'')) (\<lambda>risk_level.
     bind_exc (py_get ra ''risk_score'' (PReal 50)) (\<lambda>risk_score.
     bind_exc (get_num ra [''risk_metrics'', ''annual_volatility''] 0) (\<lambda>volatility.
     bind_exc (get_num ra [''correlation_analysis'', ''average_correlation''] 0) (\<lambda>avg_correlation.
     bind_exc (get_num ra [''var_analysis'', ''var_estimates'', ''95%'', ''var_percentage''] 0)
       (\<lambda>var_pct.
     bind_exc (get_num ra [''stress_test_results'', ''portfolio_resilience_score''] 50)
       (\<lambda>resilience_score.
     bind_exc (py_get ra ''asset_risks'' (PDict [])) (\<lambda>asset_risks.
     bind_exc (items_of asset_risks) (\<lambda>items.
     bind_exc (high_risk_assets_of items) (\<lambda>high_risk_assets.
       Inr (let recommendations =
                  level_rule risk_level @ volatility_rule volatility
                  @ correlation_rule avg_correlation @ var_rule var_pct
                  @ resilience_rule resilience_score @ asset_rule high_risk_assets
            in if recommendations \<noteq> [] then recommendations
               else [''Portfolio risk appears to be within acceptable levels'']))))))))))"

section \<open>The portfolio assessment\<close>

text \<open>The loop "Individual asset risk analysis": \<^verbatim>\<open>_assess_asset_risk\<close> has no handler
  of its own, so its exception leaves the loop.\<close>

fun asset_risk_loop ::
  "stats_lib \<Rightarrow> price_data \<Rightarrow> (string \<times> pyval) list \<Rightarrow> asset list \<Rightarrow>
   py_exception + (string \<times> pyval) list" where
  "asset_risk_loop lib price_data acc [] = Inr acc"
| "asset_risk_loop lib price_data acc (a # rest) =
     (case assess_asset_risk lib a (entry_of price_data (symbol a)) of
        Inl e \<Rightarrow> Inl e
      | Inr asset_risk \<Rightarrow>
          asset_risk_loop lib price_data (AList.update (symbol a) asset_risk acc) rest)"

definition initial_assessment :: "string \<Rightarrow> portfolio \<Rightarrow> (string \<times> pyval) list" where
  "initial_assessment now p =
     [(''portfolio_id'', PStr (case pid p of None \<Rightarrow> ''unknown'' | Some i \<Rightarrow> i)),
      (''timestamp'', PStr now),
      (''total_value_usd'', PReal 0),
      (''risk_metrics'', PDict []),
      (''asset_risks'', PDict []),
      (''correlation_analysis'', PDict []),
      (''var_analysis'', PDict []),
      (''stress_test_results'', PDict []),
      (''risk_score'', PReal 0),
      (''risk_level'', PStr ''unknown''),
      (''recommendations'', PList [])]"

text \<open>
  \<^verbatim>\<open>assess_portfolio_risk\<close>: the assessment dictionary is threaded through the stages;
  one handler around the whole body returns \<^verbatim>\<open>{'error': str(e)}\<close> alone. The stages
  read the clock separately; the model gives them the same timestamp.
\<close>

definition assess_portfolio_risk_body ::
  "stats_lib \<Rightarrow> string \<Rightarrow> portfolio \<Rightarrow> price_data \<Rightarrow> py_exception + pyval" where
  "assess_portfolio_risk_body lib now p price_data =
     (let ra0 = initial_assessment now p;
          portfolio_data = prepare_portfolio_data p price_data;
          ra1 = AList.update ''total_value_usd''
                  (PReal (case total_value portfolio_data of None \<Rightarrow> 0 | Some v \<Rightarrow> v)) ra0
      in case asset_risk_loop lib price_data []
                (case assets portfolio_data of None \<Rightarrow> [] | Some as \<Rightarrow> as) of
           Inl e \<Rightarrow> Inl e
         | Inr asset_risks \<Rightarrow>
            (let ra2 = AList.update ''asset_risks'' (PDict asset_risks) ra1;
                 ra3 = AList.update ''risk_metrics''
                         (calculate_portfolio_risk_metrics lib portfolio_data price_data) ra2;
                 ra4 = AList.update ''correlation_analysis''
                         (analyze_portfolio_correlations lib portfolio_data price_data) ra3;
                 ra5 = AList.update ''var_analysis''
                         (calculate_var lib now portfolio_data price_data
                            default_confidence_levels) ra4;
                 ra6 = AList.update ''stress_test_results''
                         (perform_stress_test now portfolio_data price_data None) ra5;
                 risk_score = calculate_overall_risk_score (PDict ra6);
                 ra7 = AList.update ''risk_score'' (PNum risk_score) ra6;
                 ra8 = AList.update ''risk_level'' (PStr (categorize_risk_level risk_score)) ra7
             in case generate_risk_recommendations (PDict ra8) of
                  Inl e \<Rightarrow> Inl e
                | Inr recs \<Rightarrow>
                    Inr (PDict (AList.update ''recommendations'' (PList (map PStr recs)) ra8))))"

definition assess_portfolio_risk ::
  "stats_lib \<Rightarrow> string \<Rightarrow> portfolio \<Rightarrow> price_data \<Rightarrow> pyval" where
  "assess_portfolio_risk lib now p price_data =
     catch (assess_portfolio_risk_body lib now p price_data)"

text \<open>Example inputs of the assessment: a portfolio of BTC and ETH whose ETH history holds
  a record without price, and the same portfolio with sound histories but no current
  price, so that its total value is 0.\<close>

definition btc_eth_portfolio :: portfolio where
  "btc_eth_portfolio = \<lparr>pid = Some ''p7'',
     holdings = Some [\<lparr>symbol = ''BTC'', quantity = 1\<rparr>, \<lparr>symbol = ''ETH'', quantity = 1\<rparr>],
     assets = None, total_value = None, asset_count = None\<rparr>"

definition broken_history :: price_data where
  "broken_history =
     [''BTC'' \<mapsto> \<lparr>current_price = Some 50000, prices = []\<rparr>,
      ''ETH'' \<mapsto> \<lparr>current_price = Some 3000,
                  prices = [\<lparr>price = Some 3000\<rparr>, \<lparr>price = None\<rparr>]\<rparr>]"

definition unpriced_history :: price_data where
  "unpriced_history =
     [''BTC'' \<mapsto> \<lparr>current_price = None, prices = map price_record [100, 110]\<rparr>,
      ''ETH'' \<mapsto> \<lparr>current_price = None, prices = map price_record [10, 12]\<rparr>]"

definition single_asset_data :: portfolio where
  "single_asset_data = prepare_portfolio_data btc_portfolio btc_prices"

section \<open>Properties of the stress test\<close>

lemma shock_for_cases:
  "shock_for sh s =
     (case sh ''all'' of Some a \<Rightarrow> a
      | None \<Rightarrow> (case sh s of Some x \<Rightarrow> x
         | None \<Rightarrow> (case sh ''others'' of Some ot \<Rightarrow> ot | None \<Rightarrow> 0)))"
  by (auto simp: shock_for_def dom_def split: option.splits)

lemma foldl_impacts:
  "h \<in> set hs \<Longrightarrow>
   \<exists>i. map_of (asset_impacts (foldl (apply_shock_to_holding sh pd) acc hs)) (symbol h) = Some i
      \<and> shock_applied i = shock_for sh (symbol h)
      \<and> original_price i = current_price_of pd (symbol h)
      \<and> new_price i = current_price_of pd (symbol h) * (1 + shock_for sh (symbol h))"
proof (induction hs arbitrary: h rule: rev_induct)
  case Nil
  then show ?case by simp
next
  case (snoc x xs)
  show ?case
  proof (cases "symbol h = symbol x")
    case True
    then show ?thesis
      by (simp add: apply_shock_to_holding_def Let_def update_conv')
  next
    case False
    with snoc.prems have "h \<in> set xs" by auto
    from snoc.IH [OF this] False show ?thesis
      by (simp add: apply_shock_to_holding_def Let_def update_conv')
  qed
qed

text \<open>
  Claim C1, as amended. For every holding processed by a stress scenario the impact recorded
  under its symbol carries the shock chosen by the source's \<^verbatim>\<open>if\<close>/\<^verbatim>\<open>elif\<close> chain: the
  wildcard \<^verbatim>\<open>all\<close> if the shocks hold it, otherwise the shock of the holding's own symbol,
  otherwise the wildcard \<^verbatim>\<open>others\<close>, otherwise 0; the new price is the current price times
  one plus that shock.
\<close>

theorem shock_precedence_all_first:
  assumes "h \<in> set (holdings_of p)"
  shows "\<exists>i. map_of (asset_impacts (apply_stress_scenario p sh pd)) (symbol h) = Some i
      \<and> shock_applied i =
         (case sh ''all'' of Some a \<Rightarrow> a
          | None \<Rightarrow> (case sh (symbol h) of Some x \<Rightarrow> x
             | None \<Rightarrow> (case sh ''others'' of Some ot \<Rightarrow> ot | None \<Rightarrow> 0)))
      \<and> original_price i = current_price_of pd (symbol h)
      \<and> new_price i = original_price i * (1 + shock_applied i)"
  using foldl_impacts [OF assms, of sh pd "\<lparr>new_value = 0, asset_impacts = []\<rparr>"]
  unfolding apply_stress_scenario_def shock_for_cases by auto

theorem shock_precedence_all_first_witness:
  "\<exists>i. map_of (asset_impacts
      (apply_stress_scenario btc_portfolio [''all'' \<mapsto> - 0.5, ''BTC'' \<mapsto> - 0.6] btc_prices)) ''BTC'' = Some i
    \<and> shock_applied i = - 0.5 \<and> new_price i = 25000"
proof -
  have h: "\<lparr>symbol = ''BTC'', quantity = 1\<rparr> \<in> set (holdings_of btc_portfolio)"
    by (simp add: holdings_of_def btc_portfolio_def)
  from shock_precedence_all_first [OF h, of "[''all'' \<mapsto> - 0.5, ''BTC'' \<mapsto> - 0.6]" btc_prices]
  obtain i where i: "map_of (asset_impacts
      (apply_stress_scenario btc_portfolio [''all'' \<mapsto> - 0.5, ''BTC'' \<mapsto> - 0.6] btc_prices)) ''BTC'' = Some i"
    "shock_applied i = - 0.5" "original_price i = current_price_of btc_prices ''BTC''"
    "new_price i = original_price i * (1 + shock_applied i)"
    by auto
  then show ?thesis
    by (auto simp: btc_prices_def current_price_of_def entry_of_def)
qed

text \<open>
  Claim C1, as stated, fails: with the shocks \<^verbatim>\<open>{'all': -0.5, 'BTC': -0.6}\<close> the holding
  BTC receives the shock of \<^verbatim>\<open>all\<close>, not its own.
\<close>

theorem shock_precedence_counterexample:
  "shock_applied (the (map_of (asset_impacts
      (apply_stress_scenario btc_portfolio [''all'' \<mapsto> - 0.5, ''BTC'' \<mapsto> - 0.6] btc_prices)) ''BTC''))
    \<noteq> spec_shock_for [''all'' \<mapsto> - 0.5, ''BTC'' \<mapsto> - 0.6] ''BTC''"
  by (simp add: apply_stress_scenario_def holdings_of_def btc_portfolio_def btc_prices_def
      apply_shock_to_holding_def shock_for_def spec_shock_for_def current_price_of_def entry_of_def)

lemma run_scenarios_zero_value:
  "scs \<noteq> [] \<Longrightarrow> run_scenarios p pd 0 acc scs = Inl ZeroDivisionError"
  by (cases scs) (simp_all add: scenario_report_of_def py_div_def Let_def)

lemma run_scenarios_nil: "run_scenarios p pd v [] [] = Inr []"
  by simp

lemma stress_test_zero_value_is_error:
  assumes "total_value p = None \<or> total_value p = Some 0"
  shows "\<exists>e. perform_stress_test now p pd scenarios = error_dict e"
proof -
  let ?scs = "case scenarios of None \<Rightarrow> get_default_stress_scenarios | Some s \<Rightarrow> s"
  have pv: "(case total_value p of None \<Rightarrow> 0 | Some v \<Rightarrow> v) = 0"
    using assms by auto
  show ?thesis
  proof (cases "?scs = []")
    case True
    then show ?thesis
      by (simp add: perform_stress_test_def perform_stress_test_body_def pv py_min_by_def
          catch_def Let_def) blast
  next
    case False
    then show ?thesis
      by (simp add: perform_stress_test_def perform_stress_test_body_def pv
          run_scenarios_zero_value catch_def Let_def) blast
  qed
qed

text \<open>
  Claim C2. The source divides by the starting portfolio value without a guard: a portfolio
  with total value 0 makes \<^verbatim>\<open>perform_stress_test\<close> return the error dictionary of a
  division by zero, not a report with \<^verbatim>\<open>percentage_loss = 0\<close>.
\<close>

theorem stress_test_zero_value_error_result:
  "perform_stress_test ''2024-01-01T00:00:00'' unpriced_portfolio Map.empty None
     = PDict [(''error'', PStr ''division by zero'')]"
  by (simp add: perform_stress_test_def perform_stress_test_body_def unpriced_portfolio_def
      get_default_stress_scenarios_def scenario_report_of_def py_div_def catch_def error_dict_def
      Let_def)

section \<open>Properties of the portfolio preparation\<close>










lemma binade_values:
  "binade 1 = 0" "binade 2 = 1" "binade 3 = 1" "binade 4 = 2" "binade 5 = 2" "binade 6 = 2"
  "binade (1 / 6) = - 3"
  by (simp_all add: binade_def eval_nat_numeral)

lemma round_double_values:
  "round_double 1 = 1" "round_double 2 = 2" "round_double 3 = 3" "round_double 4 = 4"
  "round_double 5 = 5" "round_double 6 = 6"
  "round_double (1 / 6) = 6004799503160661 / 2 ^ 55"
  by (simp_all add: round_double_def binade_values round_half_even_def Let_def)


text \<open>The sum at this input, \<open>1 - 2 ^ - 54\<close>, lies within the bounds of the amended
  claim for the rounding error of doubles, \<open>u = 2 ^ - 53\<close>, and six holdings.\<close>

lemma six_sum_within_bounds:
  "sum_list (map asset_weight
       (the (assets (prepare_portfolio_data_rounded round_double six_equal_portfolio unit_prices))))
     = 1 - 1 / 2 ^ 54
   \<and> (1 - 1 / 2 ^ 53) / (1 + 1 / 2 ^ 53) ^ 6 \<le> (1 - 1 / 2 ^ 54 :: real)
   \<and> (1 - 1 / 2 ^ 54 :: real) \<le> (1 + 1 / 2 ^ 53) / (1 - 1 / 2 ^ 53) ^ 6"
proof -
  have s: "sum_list (map asset_weight
       (the (assets (prepare_portfolio_data_rounded round_double six_equal_portfolio unit_prices))))
     = 1 - 1 / 2 ^ 54"
    by (simp add: prepare_portfolio_data_rounded_def six_equal_portfolio_def unit_prices_def
      holdings_of_def asset_of_holding_def set_weight_def current_price_of_def entry_of_def
      round_double_values Let_def)
  have "(1 - 1 / 2 ^ 53) / (1 + 1 / 2 ^ 53) ^ 6 \<le> (1 - 1 / 2 ^ 54 :: real)"
    by (simp add: field_simps)
  moreover have "(1 - 1 / 2 ^ 54 :: real) \<le> (1 + 1 / 2 ^ 53) / (1 - 1 / 2 ^ 53) ^ 6"
    by (simp add: field_simps)
  ultimately show ?thesis using s by blast
qed

section \<open>Properties of the overall risk score\<close>

lemma clamp_score_range:
  "\<exists>r. py_fmin (Fin 100) (py_fmax (Fin 0) x) = Fin r \<and> 0 \<le> r \<and> r \<le> 100"
  by (cases x) (auto simp: py_fmin_def py_fmax_def)

lemma clamp_score_Fin:
  "py_fmin (Fin 100) (py_fmax (Fin 0) (Fin x)) = Fin (min 100 (max 0 x))"
  by (auto simp: py_fmin_def py_fmax_def)

lemma score_body_range:
  assumes "calculate_overall_risk_score_body ra = Inr s"
  shows "\<exists>r. s = Fin r \<and> 0 \<le> r \<and> r \<le> 100"
proof -
  from assms obtain x where "s = py_fmin (Fin 100) (py_fmax (Fin 0) x)"
    by (auto simp: calculate_overall_risk_score_body_def Let_def split: sum.splits if_splits)
  with clamp_score_range [of x] show ?thesis by auto
qed

text \<open>
  Claim C9. For every input, whatever the dictionary holds (missing keys, values that are
  not numbers, infinities, NaN, a volatility of 500%), \<^verbatim>\<open>_calculate_overall_risk_score\<close>
  returns a finite number in [0, 100]; when the body raises, the handler returns 50. The
  bound comes from the final clamp \<^verbatim>\<open>min(100, max(0, overall_score))\<close>.
\<close>

theorem overall_risk_score_in_range:
  "\<exists>r. calculate_overall_risk_score ra = Fin r \<and> 0 \<le> r \<and> r \<le> 100
       \<and> (isl (calculate_overall_risk_score_body ra) \<longrightarrow> r = 50)"
proof (cases "calculate_overall_risk_score_body ra")
  case (Inl e)
  then show ?thesis by (simp add: calculate_overall_risk_score_def)
next
  case (Inr s)
  with score_body_range [OF Inr] show ?thesis
    by (auto simp: calculate_overall_risk_score_def)
qed

theorem overall_risk_score_in_range_witness:
  "isl (calculate_overall_risk_score_body malformed_assessment)
   \<and> calculate_overall_risk_score malformed_assessment = Fin 50"
proof -
  have f: "isl (calculate_overall_risk_score_body malformed_assessment)"
    by (simp add: calculate_overall_risk_score_body_def malformed_assessment_def get_num_def)
  with overall_risk_score_in_range [of malformed_assessment] show ?thesis by auto
qed

lemma extreme_assessment_score: "calculate_overall_risk_score extreme_assessment = Fin 100"
  by (simp add: calculate_overall_risk_score_def calculate_overall_risk_score_body_def
      extreme_assessment_def get_num_def np_average_def np_sum_def np_sub_def
      py_fmin_def py_fmax_def Let_def)

lemma get_path_missing:
  "map_of d k = None \<Longrightarrow> get_path (PDict d) (k # ks) dflt = Inr dflt"
proof (induction ks arbitrary: d k)
  case Nil
  then show ?case by simp
next
  case (Cons k' ks)
  have "get_path (PDict []) (k' # ks) dflt = Inr dflt"
    by (rule Cons.IH) simp
  with Cons.prems show ?case by simp
qed

lemma get_num_unfold:
  "get_num (PDict d) (k # ks) x =
     (case map_of d k of
        None \<Rightarrow> Inr (Fin x)
      | Some w \<Rightarrow> if ks = [] then py_num w else get_num w ks x)"
proof (cases "map_of d k")
  case None
  then show ?thesis by (simp add: get_num_def get_path_missing)
next
  case (Some w)
  then show ?thesis by (cases ks) (simp_all add: get_num_def)
qed

text \<open>
  Claim C3, as amended. Whenever the four metric reads succeed, the overall score is the
  weighted mean of all four sub-scores with the fixed weights 0.30/0.25/0.20/0.25,
  divided by their full sum and clamped to [0, 100], in the arithmetic of the floats and,
  for finite metrics, as the corresponding real number. No sub-score is ever left out
  and the weights are never renormalised: a read whose key is missing at any level of
  its \<^verbatim>\<open>.get\<close> chain yields the default (volatility 0, VaR 0, correlation 0, resilience
  50), and the sub-score is computed from it; with no metric at all the score is 12.5.
\<close>

theorem overall_score_fixed_weights:
  assumes "get_num ra [''risk_metrics'', ''annual_volatility''] 0 = Inr vol"
    and "get_num ra [''var_analysis'', ''var_estimates'', ''95%'', ''var_percentage''] 0
           = Inr var"
    and "get_num ra [''correlation_analysis'', ''average_correlation''] 0 = Inr corr"
    and "get_num ra [''stress_test_results'', ''portfolio_resilience_score''] 50 = Inr res"
  shows "calculate_overall_risk_score ra =
       py_fmin (Fin 100) (py_fmax (Fin 0)
         (np_div (np_sum [np_mul (py_fmin (Fin 100) (np_mul vol (Fin 100))) (Fin 0.3),
                          np_mul (py_fmin (Fin 100) (np_abs var)) (Fin 0.25),
                          np_mul (np_mul (np_abs corr) (Fin 100)) (Fin 0.2),
                          np_mul (np_sub (Fin 100) res) (Fin 0.25)])
                 (Fin (0.3 + 0.25 + 0.2 + 0.25))))
     \<and> (\<forall>v r c s. vol = Fin v \<and> var = Fin r \<and> corr = Fin c \<and> res = Fin s \<longrightarrow>
          calculate_overall_risk_score ra =
            Fin (min 100 (max 0
              ((min 100 (v * 100) * 0.3 + min 100 \<bar>r\<bar> * 0.25 + \<bar>c\<bar> * 100 * 0.2
                 + (100 - s) * 0.25) / (0.3 + 0.25 + 0.2 + 0.25)))))
     \<and> (\<forall>d k ks x. get_num (PDict d) (k # ks) x =
          (case map_of d k of
             None \<Rightarrow> Inr (Fin x)
           | Some w \<Rightarrow> if ks = [] then py_num w else get_num w ks x))
     \<and> calculate_overall_risk_score (PDict []) = Fin 12.5"
proof (intro conjI allI impI)
  show g: "calculate_overall_risk_score ra =
       py_fmin (Fin 100) (py_fmax (Fin 0)
         (np_div (np_sum [np_mul (py_fmin (Fin 100) (np_mul vol (Fin 100))) (Fin 0.3),
                          np_mul (py_fmin (Fin 100) (np_abs var)) (Fin 0.25),
                          np_mul (np_mul (np_abs corr) (Fin 100)) (Fin 0.2),
                          np_mul (np_sub (Fin 100) res) (Fin 0.25)])
                 (Fin (0.3 + 0.25 + 0.2 + 0.25))))"
    by (simp add: calculate_overall_risk_score_def calculate_overall_risk_score_body_def assms
        np_average_def Let_def)
  show "calculate_overall_risk_score ra =
            Fin (min 100 (max 0
              ((min 100 (v * 100) * 0.3 + min 100 \<bar>r\<bar> * 0.25 + \<bar>c\<bar> * 100 * 0.2
                 + (100 - s) * 0.25) / (0.3 + 0.25 + 0.2 + 0.25))))"
    if "vol = Fin v \<and> var = Fin r \<and> corr = Fin c \<and> res = Fin s" for v r c s
  proof -
    have vs: "py_fmin (Fin 100) (Fin (v * 100)) = Fin (min 100 (v * 100))"
      by (auto simp: py_fmin_def)
    have vr: "py_fmin (Fin 100) (Fin \<bar>r\<bar>) = Fin (min 100 \<bar>r\<bar>)"
      by (auto simp: py_fmin_def)
    show ?thesis
      unfolding g using that
      by (simp add: vs vr np_sum_def np_sub_def clamp_score_Fin)
  qed
  show "get_num (PDict d) (k # ks) x =
          (case map_of d k of
             None \<Rightarrow> Inr (Fin x)
           | Some w \<Rightarrow> if ks = [] then py_num w else get_num w ks x)" for d k ks x
    by (rule get_num_unfold)
  show "calculate_overall_risk_score (PDict []) = Fin 12.5"
    by (simp add: calculate_overall_risk_score_def calculate_overall_risk_score_body_def
        get_num_def np_average_def np_sum_def np_sub_def py_fmin_def py_fmax_def Let_def)
qed

theorem overall_score_fixed_weights_witness:
  "calculate_overall_risk_score only_volatility = Fin 42.5
   \<and> calculate_overall_risk_score
        (PDict [(''risk_metrics'', PDict [(''annual_volatility'', PNum NaN)]),
                (''correlation_analysis'', PDict [(''average_correlation'', PNum NInf)])])
      = Fin 100"
proof -
  have a: "get_num only_volatility [''risk_metrics'', ''annual_volatility''] 0 = Inr (Fin 1)"
    "get_num only_volatility [''var_analysis'', ''var_estimates'', ''95%'', ''var_percentage''] 0
       = Inr (Fin 0)"
    "get_num only_volatility [''correlation_analysis'', ''average_correlation''] 0 = Inr (Fin 0)"
    "get_num only_volatility [''stress_test_results'', ''portfolio_resilience_score''] 50
       = Inr (Fin 50)"
    by (simp_all add: only_volatility_def get_num_def)
  from overall_score_fixed_weights [OF a]
  have "calculate_overall_risk_score only_volatility =
            Fin (min 100 (max 0
              ((min 100 (1 * 100) * 0.3 + min 100 \<bar>0\<bar> * 0.25 + \<bar>0\<bar> * 100 * 0.2
                 + (100 - 50) * 0.25) / (0.3 + 0.25 + 0.2 + 0.25))))"
    by blast
  then have one: "calculate_overall_risk_score only_volatility = Fin 42.5" by simp
  let ?ra = "PDict [(''risk_metrics'', PDict [(''annual_volatility'', PNum NaN)]),
                (''correlation_analysis'', PDict [(''average_correlation'', PNum NInf)])]"
  have b: "get_num ?ra [''risk_metrics'', ''annual_volatility''] 0 = Inr NaN"
    "get_num ?ra [''var_analysis'', ''var_estimates'', ''95%'', ''var_percentage''] 0
       = Inr (Fin 0)"
    "get_num ?ra [''correlation_analysis'', ''average_correlation''] 0 = Inr NInf"
    "get_num ?ra [''stress_test_results'', ''portfolio_resilience_score''] 50 = Inr (Fin 50)"
    by (simp_all add: get_num_def)
  from overall_score_fixed_weights [OF b]
  have "calculate_overall_risk_score ?ra =
       py_fmin (Fin 100) (py_fmax (Fin 0)
         (np_div (np_sum [np_mul (py_fmin (Fin 100) (np_mul NaN (Fin 100))) (Fin 0.3),
                          np_mul (py_fmin (Fin 100) (np_abs (Fin 0))) (Fin 0.25),
                          np_mul (np_mul (np_abs NInf) (Fin 100)) (Fin 0.2),
                          np_mul (np_sub (Fin 100) (Fin 50)) (Fin 0.25)])
                 (Fin (0.3 + 0.25 + 0.2 + 0.25))))"
    by blast
  then have two: "calculate_overall_risk_score ?ra = Fin 100"
    by (simp add: np_sum_def np_sub_def py_fmin_def py_fmax_def inf_of_sign_def)
  from one two show ?thesis by blast
qed

text \<open>
  Claim C3, as stated, fails. With only the annual volatility known (100%), the
  renormalised mean of the specification is the volatility score 100, the source returns
  42.5; with no metric at all the specification says 50, the source returns 12.5.
\<close>

theorem overall_score_renormalised_counterexample:
  "calculate_overall_risk_score only_volatility
     \<noteq> Fin (spec_overall_score [Some (min 100 (1 * 100)), None, None, None])
   \<and> calculate_overall_risk_score (PDict []) \<noteq> Fin (spec_overall_score [None, None, None, None])"
  by (simp add: calculate_overall_risk_score_def calculate_overall_risk_score_body_def
      only_volatility_def get_num_def np_average_def np_sum_def np_sub_def
      py_fmin_def py_fmax_def Let_def spec_overall_score_def)


section \<open>Properties of the return series\<close>

lemma those_map_Some: "those (map Some xs) = Some xs"
  by (induction xs) simp_all

lemma price_values_records: "price_values (map price_record ps) = Inr ps"
proof -
  have "map price (map price_record ps) = map Some ps"
    by (simp add: price_record_def)
  then show ?thesis
    unfolding price_values_def by (simp only: those_map_Some option.case)
qed

lemma length_simple_returns: "length (simple_returns ps) = length ps - 1"
  by (simp add: simple_returns_def np_diff_def)

lemma nth_simple_returns:
  assumes "i < length ps - 1"
  shows "simple_returns ps ! i = np_div (Fin (ps ! Suc i - ps ! i)) (Fin (ps ! i))"
proof -
  have i: "i < length (butlast ps)" "i < length (tl ps)" using assms by simp_all
  then show ?thesis
    by (simp add: simple_returns_def np_diff_def nth_butlast nth_tl)
qed

text \<open>
  Claim C5, as amended. \<^verbatim>\<open>_calculate_returns\<close> excludes no observation: a series of
  \<open>n \<ge> 2\<close> price records yields \<open>n - 1\<close> returns, whatever the prices. The return at
  index \<open>i\<close> is the finite number \<open>(p (i + 1) - p i) / p i\<close> when the previous price
  \<open>p i\<close> is not zero, and is not a finite number (infinite or NaN) when it is zero.
\<close>

theorem calculate_returns_excludes_nothing:
  assumes "2 \<le> length ps"
  shows "\<exists>rs. calculate_returns (series ps) = Inr rs
      \<and> length rs = length ps - 1
      \<and> (\<forall>i<length rs.
            (ps ! i \<noteq> 0 \<longrightarrow> rs ! i = Fin ((ps ! Suc i - ps ! i) / ps ! i))
          \<and> (ps ! i = 0 \<longrightarrow> rs ! i \<notin> range Fin))"
proof -
  have r: "calculate_returns (series ps) = Inr (simple_returns ps)"
    using assms by (simp add: calculate_returns_def series_def price_values_records)
  have "(ps ! i \<noteq> 0 \<longrightarrow> simple_returns ps ! i = Fin ((ps ! Suc i - ps ! i) / ps ! i))
          \<and> (ps ! i = 0 \<longrightarrow> simple_returns ps ! i \<notin> range Fin)"
    if "i < length ps - 1" for i
    using nth_simple_returns [OF that] by (auto simp: inf_of_sign_def)
  with r show ?thesis by (simp add: length_simple_returns)
qed

theorem calculate_returns_excludes_nothing_witness:
  "\<exists>rs. calculate_returns (series [100, 110, 0, 50]) = Inr rs \<and> length rs = 3
      \<and> rs ! 0 = Fin 0.1 \<and> rs ! 1 = Fin (- 1) \<and> rs ! 2 \<notin> range Fin"
proof -
  let ?ps = "[100, 110, 0, 50] :: real list"
  have l: "2 \<le> length ?ps" by simp
  from calculate_returns_excludes_nothing [OF l]
  obtain rs where rs: "calculate_returns (series ?ps) = Inr rs"
    "length rs = length ?ps - 1"
    "\<forall>i<length rs.
       (?ps ! i \<noteq> 0 \<longrightarrow> rs ! i = Fin ((?ps ! Suc i - ?ps ! i) / ?ps ! i))
     \<and> (?ps ! i = 0 \<longrightarrow> rs ! i \<notin> range Fin)"
    by blast
  have n: "length rs = 3" using rs(2) by simp
  have "rs ! 0 = Fin 0.1" using n rs(3) [rule_format, of 0] by simp
  moreover have "rs ! 1 = Fin (- 1)" using n rs(3) [rule_format, of 1] by simp
  moreover have "rs ! 2 \<notin> range Fin" using n rs(3) [rule_format, of 2] by simp
  ultimately show ?thesis using rs(1) n by blast
qed

text \<open>
  Claim C5, as stated, fails: in the series 100, 0, 50 the zero price stays, the second
  return divides by it and is infinite; excluding the record first would leave the
  single return -0.5.
\<close>

theorem calculate_returns_counterexample:
  "calculate_returns (series [100, 0, 50]) = Inr [Fin (- 1), PInf]
   \<and> spec_calculate_returns [100, 0, 50] = [- 0.5]"
  by (simp add: calculate_returns_def series_def price_values_def price_record_def
      simple_returns_def np_diff_def inf_of_sign_def spec_calculate_returns_def)


section \<open>Properties of the maximum drawdown\<close>

lemma accumulate_from_mul_Fin:
  "accumulate_from np_mul (Fin a) (map Fin xs) = map Fin (accumulate_from (*) a xs)"
  by (induction xs arbitrary: a) simp_all

lemma accumulate_from_mul_sorted:
  "0 < a \<Longrightarrow> \<forall>x\<in>set xs. 1 \<le> x \<Longrightarrow>
   sorted (a # accumulate_from (*) a xs) \<and> (\<forall>y\<in>set (accumulate_from (*) a xs). 0 < (y::real))"
proof (induction xs arbitrary: a)
  case Nil
  then show ?case by simp
next
  case (Cons x xs)
  have x: "1 \<le> x" using Cons.prems(2) by simp
  have ax: "a \<le> a * x" using Cons.prems(1) x by simp
  have pos: "0 < a * x" using Cons.prems(1) x by simp
  from Cons.IH [OF pos] Cons.prems(2)
  have ih: "sorted (a * x # accumulate_from (*) (a * x) xs)"
       "\<forall>y\<in>set (accumulate_from (*) (a * x) xs). 0 < y"
    by simp_all
  have "\<forall>y\<in>set (accumulate_from (*) (a * x) xs). a \<le> y"
    using ih(1) ax by auto
  with ih ax pos show ?case by simp
qed

lemma accumulate_from_maximum_sorted:
  "sorted (m # ys) \<Longrightarrow> accumulate_from np_maximum (Fin m) (map Fin ys) = map Fin ys"
proof (induction ys arbitrary: m)
  case Nil
  then show ?case by simp
next
  case (Cons y ys)
  have "m \<le> y" using Cons.prems by simp
  then have "np_maximum (Fin m) (Fin y) = Fin y"
    by (auto simp: np_maximum_def)
  moreover have "sorted (y # ys)" using Cons.prems by simp
  ultimately show ?case using Cons.IH by simp
qed

lemma drawdown_zip_same:
  "\<forall>y\<in>set ys. y \<noteq> 0 \<Longrightarrow>
   map (\<lambda>(c, m). np_div (np_sub c m) m) (zip (map Fin ys) (map Fin ys)) = map (\<lambda>_. Fin 0) ys"
  by (induction ys) (simp_all add: np_sub_def)

lemma foldl_minimum_zeros:
  "foldl np_minimum (Fin 0) (map (\<lambda>_. Fin 0) ys) = Fin 0"
  by (induction ys) (simp_all add: np_minimum_def)

lemma drawdown_of_nonnegative_returns:
  assumes "rs \<noteq> []" and "\<forall>r\<in>set rs. 0 \<le> r"
  shows "drawdown_of_returns (map Fin rs) = Inr (Fin 0)"
proof -
  from assms(1) obtain r0 rest where rs: "rs = r0 # rest" by (cases rs) auto
  define a where "a = 1 + r0"
  define fs where "fs = map (\<lambda>r. 1 + r) rest"
  define cs where "cs = a # accumulate_from (*) a fs"
  have a: "0 < a" using assms(2) by (simp add: a_def rs)
  have fs1: "\<forall>x\<in>set fs. 1 \<le> x" using assms(2) by (auto simp: fs_def rs)
  have "map (np_add (Fin 1)) (map Fin rs) = Fin a # map Fin fs"
    by (simp add: rs a_def fs_def)
  then have cum: "np_cumprod (map (np_add (Fin 1)) (map Fin rs)) = map Fin cs"
    by (simp add: np_cumprod_def accumulate_def accumulate_from_mul_Fin cs_def)
  from accumulate_from_mul_sorted [OF a fs1]
  have srt: "sorted cs" and pos: "\<forall>y\<in>set cs. 0 < y"
    using a by (simp_all add: cs_def)
  have run: "accumulate np_maximum (map Fin cs) = map Fin cs"
    using srt accumulate_from_maximum_sorted [of a "accumulate_from (*) a fs"]
    by (simp add: accumulate_def cs_def)
  have nz: "\<forall>y\<in>set cs. y \<noteq> 0" using pos by auto
  have dd: "map (\<lambda>(c, m). np_div (np_sub c m) m) (zip (map Fin cs) (map Fin cs))
      = map (\<lambda>_. Fin 0) cs"
    by (rule drawdown_zip_same [OF nz])
  have mn: "np_min (map (\<lambda>_. Fin 0) cs) = Inr (Fin 0)"
    by (simp add: np_min_def cs_def foldl_minimum_zeros)
  show ?thesis
    unfolding drawdown_of_returns_def Let_def cum run dd mn by simp
qed

lemma sorted_wrt_less_positive:
  assumes "sorted_wrt (<) ps" and "0 < hd ps" and "p \<in> set ps"
  shows "0 < (p::real)"
proof (cases ps)
  case Nil
  with assms(3) show ?thesis by simp
next
  case (Cons x xs)
  with assms show ?thesis by auto
qed

lemma simple_returns_increasing:
  assumes "sorted_wrt (<) ps" and "\<forall>p\<in>set ps. 0 < p"
  shows "\<exists>rs. simple_returns ps = map Fin rs \<and> length rs = length ps - 1 \<and> (\<forall>r\<in>set rs. 0 < r)"
proof -
  define rs where "rs = map (\<lambda>(a, b). (b - a) / a) (zip (butlast ps) (tl ps))"
  have pair: "a < b \<and> 0 < a" if "(a, b) \<in> set (zip (butlast ps) (tl ps))" for a b
  proof -
    from that obtain i where i: "i < length (butlast ps)" "i < length (tl ps)"
      "a = butlast ps ! i" "b = tl ps ! i"
      by (auto simp: set_zip)
    then have ab: "a = ps ! i" "b = ps ! Suc i" "Suc i < length ps"
      by (simp_all add: nth_butlast nth_tl)
    have "ps ! i < ps ! Suc i"
      using assms(1) ab(3) by (simp add: sorted_wrt_nth_less)
    moreover have "0 < ps ! i" using assms(2) ab(3) by simp
    ultimately show ?thesis using ab by simp
  qed
  have "simple_returns ps = map (\<lambda>(a, b). np_div (Fin (b - a)) (Fin a)) (zip (butlast ps) (tl ps))"
    unfolding simple_returns_def np_diff_def
    by (rule nth_equalityI) (simp_all add: nth_butlast)
  also have "\<dots> = map Fin rs"
    unfolding rs_def using pair by (fastforce simp: map_eq_conv)
  finally have "simple_returns ps = map Fin rs" .
  moreover have "length rs = length ps - 1" by (simp add: rs_def)
  moreover have "\<forall>r\<in>set rs. 0 < r" using pair by (auto simp: rs_def)
  ultimately show ?thesis by blast
qed

text \<open>
  Claim C8, as amended. For a series of at least two prices that is strictly increasing
  and starts at a positive price, \<^verbatim>\<open>_calculate_max_drawdown\<close> returns exactly 0: every
  return is positive, the cumulative product is its own running maximum.
\<close>

theorem max_drawdown_zero_for_rising_positive_prices:
  assumes "2 \<le> length ps" and "sorted_wrt (<) ps" and "0 < hd ps"
  shows "calculate_max_drawdown (series ps) = Inr (Fin 0)"
proof -
  have pos: "\<forall>p\<in>set ps. 0 < p"
    using sorted_wrt_less_positive [OF assms(2,3)] by blast
  from simple_returns_increasing [OF assms(2) pos]
  obtain rs where rs: "simple_returns ps = map Fin rs" "length rs = length ps - 1"
    "\<forall>r\<in>set rs. 0 < r"
    by blast
  have ne: "rs \<noteq> []" using rs(2) assms(1) by auto
  have nn: "\<forall>r\<in>set rs. 0 \<le> r" using rs(3) by auto
  have "calculate_max_drawdown (series ps) = drawdown_of_returns (simple_returns ps)"
    using assms(1) by (simp add: calculate_max_drawdown_def series_def price_values_records)
  then show ?thesis
    using drawdown_of_nonnegative_returns [OF ne nn] rs(1) by simp
qed

theorem max_drawdown_zero_for_rising_positive_prices_witness:
  "2 \<le> length [100, 110, 121 :: real] \<and> sorted_wrt (<) [100, 110, 121 :: real]
   \<and> 0 < hd [100, 110, 121 :: real]
   \<and> calculate_max_drawdown (series [100, 110, 121]) = Inr (Fin 0)"
proof -
  have h: "2 \<le> length [100, 110, 121 :: real]" "sorted_wrt (<) [100, 110, 121 :: real]"
    "0 < hd [100, 110, 121 :: real]"
    by simp_all
  from max_drawdown_zero_for_rising_positive_prices [OF h] h show ?thesis by blast
qed

text \<open>
  Claim C8, as stated, fails for prices that are not positive, which the source does not
  exclude: the strictly increasing series -3, -2, -1 has the negative returns -1/3 and
  -1/2 and the drawdown 1/2, and the strictly increasing series 0, 1, 2 divides by its
  first price and yields NaN.
\<close>

theorem max_drawdown_rising_counterexample:
  "sorted_wrt (<) [- 3, - 2, - 1 :: real]
   \<and> calculate_max_drawdown (series [- 3, - 2, - 1]) = Inr (Fin (1 / 2))
   \<and> sorted_wrt (<) [0, 1, 2 :: real]
   \<and> calculate_max_drawdown (series [0, 1, 2]) = Inr NaN"
  by (simp add: calculate_max_drawdown_def series_def price_values_def price_record_def
      simple_returns_def np_diff_def drawdown_of_returns_def np_cumprod_def accumulate_def
      np_maximum_def np_minimum_def np_min_def np_sub_def inf_of_sign_def Let_def)


section \<open>Properties of the historical VaR\<close>

lemma interpolate_at_bounds:
  assumes "sorted s" and "0 \<le> pos" and "pos \<le> real (length s - 1)" and "s \<noteq> []"
  shows "s ! nat \<lfloor>pos\<rfloor> \<le> interpolate_at s pos"
    and "interpolate_at s pos \<le> s ! min (nat \<lfloor>pos\<rfloor> + 1) (length s - 1)"
proof -
  define j where "j = nat \<lfloor>pos\<rfloor>"
  define g where "g = pos - real j"
  define k where "k = min (j + 1) (length s - 1)"
  have jr: "real j = of_int \<lfloor>pos\<rfloor>" using assms(2) by (simp add: j_def)
  have g: "0 \<le> g" "g < 1" unfolding g_def jr by linarith+
  have "real j \<le> real (length s - 1)" using assms(3) jr by linarith
  then have jl: "j \<le> length s - 1" by simp
  have "0 < length s" using assms(4) by simp
  then have kl: "k < length s" unfolding k_def by linarith
  have "j \<le> k" using jl by (simp add: k_def)
  then have le: "s ! j \<le> s ! k" using assms(1) kl by (simp add: sorted_nth_mono)
  have v: "interpolate_at s pos = s ! j + (s ! k - s ! j) * g"
    by (simp add: interpolate_at_def Let_def j_def g_def k_def)
  have "0 \<le> (s ! k - s ! j) * g" using le g(1) by simp
  then show "s ! nat \<lfloor>pos\<rfloor> \<le> interpolate_at s pos"
    unfolding v j_def by simp
  have "(s ! k - s ! j) * g \<le> (s ! k - s ! j) * 1"
    using le g(2) by (intro mult_left_mono) simp_all
  then show "interpolate_at s pos \<le> s ! min (nat \<lfloor>pos\<rfloor> + 1) (length s - 1)"
    unfolding v k_def j_def by simp
qed

lemma interpolate_at_mono:
  assumes "sorted s" and "s \<noteq> []" and "0 \<le> pos1" and "pos1 \<le> pos2"
    and "pos2 \<le> real (length s - 1)"
  shows "interpolate_at s pos1 \<le> interpolate_at s pos2"
proof -
  define j1 where "j1 = nat \<lfloor>pos1\<rfloor>"
  define j2 where "j2 = nat \<lfloor>pos2\<rfloor>"
  have p2: "0 \<le> pos2" using assms(3,4) by simp
  have p1: "pos1 \<le> real (length s - 1)" using assms(4,5) by simp
  have j12: "j1 \<le> j2"
    unfolding j1_def j2_def using assms(4) by (simp add: floor_mono nat_mono)
  have jr2: "real j2 = of_int \<lfloor>pos2\<rfloor>" using p2 by (simp add: j2_def)
  have "real j2 \<le> real (length s - 1)" using assms(5) jr2 by linarith
  then have j2l: "j2 \<le> length s - 1" by simp
  have len: "0 < length s" using assms(2) by simp
  show ?thesis
  proof (cases "j1 = j2")
    case True
    define k where "k = min (j1 + 1) (length s - 1)"
    have kl: "k < length s" using len unfolding k_def by linarith
    have "j1 \<le> k" using j2l True by (simp add: k_def)
    then have le: "s ! j1 \<le> s ! k" using assms(1) kl by (simp add: sorted_nth_mono)
    have v1: "interpolate_at s pos1 = s ! j1 + (s ! k - s ! j1) * (pos1 - real j1)"
      by (simp add: interpolate_at_def Let_def j1_def k_def)
    have v2: "interpolate_at s pos2 = s ! j1 + (s ! k - s ! j1) * (pos2 - real j1)"
      using True by (simp add: interpolate_at_def Let_def j1_def j2_def k_def)
    have "(s ! k - s ! j1) * (pos1 - real j1) \<le> (s ! k - s ! j1) * (pos2 - real j1)"
      using le assms(4) by (intro mult_left_mono) simp_all
    then show ?thesis unfolding v1 v2 by simp
  next
    case False
    with j12 have lt: "j1 + 1 \<le> j2" by simp
    have "interpolate_at s pos1 \<le> s ! min (j1 + 1) (length s - 1)"
      unfolding j1_def by (rule interpolate_at_bounds(2) [OF assms(1) assms(3) p1 assms(2)])
    also have "\<dots> \<le> s ! j2"
    proof -
      have "min (j1 + 1) (length s - 1) \<le> j2" using lt by simp
      moreover have "j2 < length s" using j2l len by linarith
      ultimately show ?thesis using assms(1) by (simp add: sorted_nth_mono)
    qed
    also have "\<dots> \<le> interpolate_at s pos2"
      unfolding j2_def by (rule interpolate_at_bounds(1) [OF assms(1) p2 assms(5) assms(2)])
    finally show ?thesis .
  qed
qed

lemma percentile_linear_mono:
  assumes "xs \<noteq> []" and "0 \<le> q1" and "q1 \<le> q2" and "q2 \<le> 100"
  shows "percentile_linear xs q1 \<le> percentile_linear xs q2"
proof -
  let ?n = "real (length xs - 1)"
  have n: "0 \<le> ?n" by simp
  have a: "0 \<le> q1 / 100 * ?n" using assms(2) by simp
  have b: "q1 / 100 * ?n \<le> q2 / 100 * ?n"
    using assms(3) n by (intro mult_right_mono) simp_all
  have "q2 / 100 * ?n \<le> 1 * ?n"
    using assms(4) n by (intro mult_right_mono) simp_all
  then have c: "q2 / 100 * ?n \<le> real (length (sort xs) - 1)" by simp
  have ne: "sort xs \<noteq> []" using assms(1) by (metis length_sort length_0_conv)
  show ?thesis
    unfolding percentile_linear_def
    using interpolate_at_mono [OF _ ne a _ c] b by simp
qed


lemma np_insort_Fin: "np_insort (Fin x) (map Fin ys) = map Fin (insort x ys)"
  by (induction ys) auto

lemma np_sort_Fin: "np_sort (map Fin rs) = map Fin (sort rs)"
  unfolding np_sort_def sort_key_def
  by (induction rs) (simp_all add: np_insort_Fin)

lemma np_lerp_Fin: "np_lerp (Fin a) (Fin b) t = Fin (a + (b - a) * t)"
  by (simp add: np_lerp_def np_sub_def algebra_simps)

lemma np_interpolate_at_Fin:
  assumes "s \<noteq> []" and "0 \<le> pos" and "pos \<le> real (length s - 1)"
  shows "np_interpolate_at (map Fin s) pos = Fin (interpolate_at s pos)"
proof -
  define j where "j = nat \<lfloor>pos\<rfloor>"
  have jr: "real j = of_int \<lfloor>pos\<rfloor>" using assms(2) by (simp add: j_def)
  have "real j \<le> real (length s - 1)" using assms(3) jr by linarith
  then have "j \<le> length s - 1" by simp
  moreover have "0 < length s" using assms(1) by simp
  ultimately have j: "j < length s" by linarith
  have k: "min (j + 1) (length s - 1) < length s"
    using \<open>0 < length s\<close> by linarith
  show ?thesis
    unfolding np_interpolate_at_def interpolate_at_def Let_def j_def [symmetric]
    using j k by (simp add: np_lerp_Fin)
qed

lemma np_percentile_finite:
  assumes "rs \<noteq> []" and "0 \<le> q" and "q \<le> 100"
  shows "np_percentile (map Fin rs) q = Inr (Fin (percentile_linear rs q))"
proof -
  let ?n = "real (length rs - 1)"
  have a: "0 \<le> q / 100 * ?n" using assms(2) by simp
  have "q / 100 * ?n \<le> 1 * ?n"
    using assms(3) by (intro mult_right_mono) simp_all
  then have b: "q / 100 * ?n \<le> real (length (sort rs) - 1)" by simp
  have ne: "sort rs \<noteq> []" using assms(1) by (metis length_sort length_0_conv)
  have nan: "NaN \<notin> set (map Fin rs)" by auto
  have "np_percentile (map Fin rs) q
      = Inr (np_interpolate_at (map Fin (sort rs)) (q / 100 * ?n))"
    using assms nan unfolding np_percentile_def by (simp add: np_sort_Fin)
  also have "\<dots> = Inr (Fin (percentile_linear rs q))"
    unfolding percentile_linear_def by (simp only: np_interpolate_at_Fin [OF ne a b])
  finally show ?thesis .
qed

lemma format_percent_95: "format_percent (19 / 20) = ''95%''"
  by (simp add: format_percent_def string_of_nat.simps [of 95] string_of_nat.simps [of 9])

lemma format_percent_99: "format_percent (99 / 100) = ''99%''"
  by (simp add: format_percent_def string_of_nat.simps [of 99] string_of_nat.simps [of 9])

lemma historical_var_loop_default:
  assumes "rs \<noteq> []"
  shows "\<exists>d95 d99 es.
     historical_var_loop (map Fin rs) tv ([], []) [0.95, 0.99]
       = Inr ([(''95%'', PDict ((''var_absolute'', PReal (percentile_linear rs 5)) # d95)),
               (''99%'', PDict ((''var_absolute'', PReal (percentile_linear rs 1)) # d99))], es)"
proof -
  have p5: "np_percentile (map Fin rs) 5 = Inr (Fin (percentile_linear rs 5))"
    by (rule np_percentile_finite [OF assms]) simp_all
  have p1: "np_percentile (map Fin rs) 1 = Inr (Fin (percentile_linear rs 1))"
    by (rule np_percentile_finite [OF assms]) simp_all
  show ?thesis
    by (simp add: p5 p1 format_percent_95 format_percent_99 Let_def)
qed

text \<open>
  Claim C4, as amended. When the portfolio return series has at least 30 observations and
  every one of them is a finite number, \<^verbatim>\<open>calculate_var\<close> with the default confidence
  levels reports under \<^verbatim>\<open>'95%'\<close> the 5th and under \<^verbatim>\<open>'99%'\<close> the 1st percentile of the
  returns, and the value for 0.99 is less than or equal to the value for 0.95.
\<close>

theorem historical_var_monotone_in_confidence:
  assumes "calculate_portfolio_returns p pd = Inr (map Fin rs)" and "30 \<le> length rs"
  shows "\<exists>v95 v99.
      get_path (calculate_var lib now p pd default_confidence_levels)
        [''var_estimates'', ''95%'', ''var_absolute''] (PDict []) = Inr (PReal v95)
    \<and> get_path (calculate_var lib now p pd default_confidence_levels)
        [''var_estimates'', ''99%'', ''var_absolute''] (PDict []) = Inr (PReal v99)
    \<and> v95 = percentile_linear rs 5 \<and> v99 = percentile_linear rs 1
    \<and> v99 \<le> v95"
proof -
  have ne: "rs \<noteq> []" using assms(2) by auto
  let ?tv = "case total_value p of None \<Rightarrow> 0 | Some v \<Rightarrow> v"
  from historical_var_loop_default [OF ne, of ?tv]
  obtain d95 d99 es where loop:
    "historical_var_loop (map Fin rs) ?tv ([], []) [0.95, 0.99]
       = Inr ([(''95%'', PDict ((''var_absolute'', PReal (percentile_linear rs 5)) # d95)),
               (''99%'', PDict ((''var_absolute'', PReal (percentile_linear rs 1)) # d99))], es)"
    by blast
  have mono: "percentile_linear rs 1 \<le> percentile_linear rs 5"
    by (rule percentile_linear_mono [OF ne]) simp_all
  have len: "\<not> length (map Fin rs) < 30" using assms(2) by simp
  have "\<exists>rest. calculate_var lib now p pd default_confidence_levels
      = PDict ((''timestamp'', PStr now) # (''confidence_levels'', PList (map PReal [0.95, 0.99]))
          # (''var_estimates'',
              PDict [(''95%'', PDict ((''var_absolute'', PReal (percentile_linear rs 5)) # d95)),
                     (''99%'', PDict ((''var_absolute'', PReal (percentile_linear rs 1)) # d99))])
          # rest)"
    unfolding calculate_var_def calculate_var_body_def default_confidence_levels_def
    by (simp only: assms(1) sum.case len if_False loop prod.case catch_def) blast
  then obtain rest where cv: "calculate_var lib now p pd default_confidence_levels
      = PDict ((''timestamp'', PStr now) # (''confidence_levels'', PList (map PReal [0.95, 0.99]))
          # (''var_estimates'',
              PDict [(''95%'', PDict ((''var_absolute'', PReal (percentile_linear rs 5)) # d95)),
                     (''99%'', PDict ((''var_absolute'', PReal (percentile_linear rs 1)) # d99))])
          # rest)"
    by blast
  show ?thesis
    unfolding cv using mono by simp
qed

lemma crash_portfolio_returns:
  "calculate_portfolio_returns crash_portfolio crash_price_data = Inr (map Fin crash_returns)"
  by (simp add: calculate_portfolio_returns_def crash_portfolio_def crash_price_data_def
      entry_of_def calculate_returns_def crash_prices_def price_values_def price_record_def
      simple_returns_def np_diff_def crash_returns_def)


lemma crash_percentiles:
  "percentile_linear crash_returns 5 = - 0.5" "percentile_linear crash_returns 1 = - 0.784"
  by (simp_all add: percentile_linear_def interpolate_at_def crash_returns_def Let_def)

theorem historical_var_monotone_in_confidence_witness:
  "get_path (calculate_var table_lib ''2024-01-01T00:00:00'' crash_portfolio crash_price_data
       default_confidence_levels)
     [''var_estimates'', ''95%'', ''var_absolute''] (PDict []) = Inr (PReal (- 0.5))
   \<and> get_path (calculate_var table_lib ''2024-01-01T00:00:00'' crash_portfolio crash_price_data
       default_confidence_levels)
     [''var_estimates'', ''99%'', ''var_absolute''] (PDict []) = Inr (PReal (- 0.784))"
proof -
  have l: "30 \<le> length crash_returns" by (simp add: crash_returns_def)
  from historical_var_monotone_in_confidence [OF crash_portfolio_returns l,
      of table_lib "''2024-01-01T00:00:00''"]
  show ?thesis by (simp only: crash_percentiles) blast
qed

text \<open>
  Claim C4, as stated, fails on a series that holds NaN. A price history of 31 records
  with two zero prices in a row gives 30 returns, among them 0 / 0; the percentile is then
  NaN at both confidence levels, and NaN is not less than or equal to NaN.
\<close>

theorem historical_var_nan_counterexample:
  "30 \<le> length halted_prices - 1
   \<and> get_path (calculate_var table_lib ''2024-01-01T00:00:00'' halted_portfolio halted_price_data
         default_confidence_levels)
       [''var_estimates'', ''99%'', ''var_absolute''] (PDict []) = Inr (PNum NaN)
   \<and> get_path (calculate_var table_lib ''2024-01-01T00:00:00'' halted_portfolio halted_price_data
         default_confidence_levels)
       [''var_estimates'', ''95%'', ''var_absolute''] (PDict []) = Inr (PNum NaN)
   \<and> \<not> np_le NaN NaN"
proof -
  have r: "calculate_portfolio_returns halted_portfolio halted_price_data
      = Inr (Fin (- 1) # NaN # PInf # map Fin (replicate 27 0))"
    by (simp add: calculate_portfolio_returns_def halted_portfolio_def halted_price_data_def
        entry_of_def calculate_returns_def halted_prices_def price_values_def price_record_def
        simple_returns_def np_diff_def inf_of_sign_def eval_nat_numeral)
  show ?thesis
    by (simp add: calculate_var_def calculate_var_body_def catch_def r np_percentile_def
        default_confidence_levels_def format_percent_95 format_percent_99 np_le_def Let_def
        halted_prices_def)
qed

section \<open>Properties of the correlation analysis\<close>

text \<open>
  Claim C7, as amended. For a portfolio of exactly one asset the correlation analysis
  returns the dictionary that holds the message "Need at least 2 assets for correlation
  analysis" and nothing else: no correlation matrix and no diversification ratio.
\<close>

theorem single_asset_correlation_message:
  assumes "assets pdata = Some as" and "length as = 1"
  shows "analyze_portfolio_correlations lib pdata pd
           = PDict [(''message'', PStr ''Need at least 2 assets for correlation analysis'')]
       \<and> py_get (analyze_portfolio_correlations lib pdata pd) ''diversification_ratio''
            (PStr ''absent'') = Inr (PStr ''absent'')
       \<and> py_get (analyze_portfolio_correlations lib pdata pd) ''correlation_matrix''
            (PStr ''absent'') = Inr (PStr ''absent'')"
  using assms
  by (simp add: analyze_portfolio_correlations_def analyze_portfolio_correlations_body_def
      catch_def Let_def)

lemma single_asset_data_assets:
  "assets single_asset_data = Some [\<lparr>symbol = ''BTC'', quantity = 1, asset_current_price = 50000,
      asset_value = 50000, asset_weight = 1\<rparr>]"
  by (simp add: single_asset_data_def prepare_portfolio_data_def
      prepare_portfolio_data_rounded_def btc_portfolio_def
      btc_prices_def holdings_of_def asset_of_holding_def set_weight_def current_price_of_def
      entry_of_def Let_def)

theorem single_asset_correlation_message_witness:
  "analyze_portfolio_correlations table_lib single_asset_data btc_prices
     = PDict [(''message'', PStr ''Need at least 2 assets for correlation analysis'')]"
proof -
  have "length [\<lparr>symbol = ''BTC'', quantity = 1, asset_current_price = 50000,
      asset_value = 50000, asset_weight = (1::real)\<rparr>] = 1"
    by simp
  from single_asset_correlation_message [OF single_asset_data_assets this]
  show ?thesis by blast
qed

text \<open>
  Claim C7, as stated, fails: the result for one asset reports no diversification ratio,
  so none equal to 1.0.
\<close>

theorem single_asset_diversification_counterexample:
  "length (the (assets single_asset_data)) = 1
   \<and> \<not> spec_reports_single_asset
         (analyze_portfolio_correlations table_lib single_asset_data btc_prices)"
  by (simp add: single_asset_data_assets analyze_portfolio_correlations_def
      analyze_portfolio_correlations_body_def catch_def Let_def spec_reports_single_asset_def)


section \<open>Properties of the portfolio assessment\<close>

lemma get_num_step:
  "map_of ra k1 = Some w \<Longrightarrow> get_num (PDict ra) (k1 # k2 # ks) d = get_num w (k2 # ks) d"
  by (simp add: get_num_def)

lemma metrics_volatility_readable:
  "\<exists>x. get_num (calculate_portfolio_risk_metrics lib pdata pd) [''annual_volatility''] 0 = Inr x"
  by (auto simp: calculate_portfolio_risk_metrics_def calculate_portfolio_risk_metrics_body_def
      catch_def error_dict_def get_num_def Let_def split: sum.splits)

lemma correlation_average_readable:
  "\<exists>x. get_num (analyze_portfolio_correlations lib pdata pd) [''average_correlation''] 0 = Inr x"
  by (auto simp: analyze_portfolio_correlations_def analyze_portfolio_correlations_body_def
      catch_def error_dict_def get_num_def Let_def split: sum.splits option.splits)

lemma stress_resilience_readable:
  "\<exists>x. get_num (perform_stress_test now pdata pd scs) [''portfolio_resilience_score''] 50 = Inr x"
  by (auto simp: perform_stress_test_def perform_stress_test_body_def
      catch_def error_dict_def get_num_def Let_def split: sum.splits)

lemma historical_var_loop_entries:
  assumes "historical_var_loop rs tv (ve, es) cs = Inr (ve', es')"
    and "\<forall>v\<in>snd ` set ve. \<exists>a b c. v = PDict [(''var_absolute'', PNum a),
            (''var_percentage'', PNum b), (''var_dollar'', PNum c)]"
  shows "\<forall>v\<in>snd ` set ve'. \<exists>a b c. v = PDict [(''var_absolute'', PNum a),
            (''var_percentage'', PNum b), (''var_dollar'', PNum c)]"
  using assms
proof (induction cs arbitrary: ve es)
  case Nil
  then show ?case by simp
next
  case (Cons c cs)
  from Cons.prems(1) obtain v where
    v: "np_percentile rs ((1 - c) * 100) = Inr v"
    by (auto simp: Let_def split: sum.splits)
  let ?entry = "PDict [(''var_absolute'', PNum v), (''var_percentage'', PNum (np_mul v (Fin 100))),
                       (''var_dollar'', PNum (np_mul v (Fin tv)))]"
  let ?ve = "AList.update (format_percent c) ?entry ve"
  from Cons.prems(1) v obtain es2 where
    step: "historical_var_loop rs tv (?ve, es2) cs = Inr (ve', es')"
    by (auto simp: Let_def)
  have "set ?ve \<subseteq> insert (format_percent c, ?entry) (set ve)"
    by (induction ve) auto
  then have "\<forall>w\<in>snd ` set ?ve. \<exists>a b c. w = PDict [(''var_absolute'', PNum a),
            (''var_percentage'', PNum b), (''var_dollar'', PNum c)]"
    using Cons.prems(2) by fastforce
  from Cons.IH [OF step this] show ?case .
qed

lemma var_percentage_readable:
  "\<exists>x. get_num (calculate_var lib now pdata pd cs)
         [''var_estimates'', ''95%'', ''var_percentage''] 0 = Inr x"
proof (cases "calculate_var_body lib now pdata pd cs")
  case (Inl e)
  then show ?thesis
    by (simp add: calculate_var_def catch_def error_dict_def get_num_def)
next
  case (Inr v)
  show ?thesis
  proof (cases "\<exists>ve es. \<exists>rs. calculate_portfolio_returns pdata pd = Inr rs \<and> \<not> length rs < 30 \<and>
      historical_var_loop rs (case total_value pdata of None \<Rightarrow> 0 | Some v \<Rightarrow> v) ([], []) cs
        = Inr (ve, es)")
    case True
    then obtain ve es rs where a: "calculate_portfolio_returns pdata pd = Inr rs"
      "\<not> length rs < 30"
      "historical_var_loop rs (case total_value pdata of None \<Rightarrow> 0 | Some v \<Rightarrow> v) ([], []) cs
        = Inr (ve, es)"
      by blast
    have shape: "\<forall>v\<in>snd ` set ve. \<exists>a b c. v = PDict [(''var_absolute'', PNum a),
            (''var_percentage'', PNum b), (''var_dollar'', PNum c)]"
      by (rule historical_var_loop_entries [OF a(3)]) simp
    have "\<exists>x. get_num (PDict ve) [''95%'', ''var_percentage''] 0 = Inr x"
    proof (cases "map_of ve ''95%''")
      case None
      then show ?thesis by (simp add: get_num_def)
    next
      case (Some w)
      then have "w \<in> snd ` set ve" by (metis map_of_SomeD snd_conv image_eqI)
      with shape obtain a b c where "w = PDict [(''var_absolute'', PNum a),
            (''var_percentage'', PNum b), (''var_dollar'', PNum c)]"
        by blast
      with Some show ?thesis by (simp add: get_num_def)
    qed
    then show ?thesis
      using a by (simp add: calculate_var_def calculate_var_body_def catch_def get_num_def)
  next
    case False
    with Inr show ?thesis
      by (auto simp: calculate_var_def calculate_var_body_def catch_def get_num_def
          split: sum.splits if_splits)
  qed
qed

lemma asset_risk_loop_no_level:
  assumes "asset_risk_loop lib pd acc as = Inr ars"
    and "high_risk_assets_of acc = Inr []"
  shows "high_risk_assets_of ars = Inr []"
  using assms
proof (induction as arbitrary: acc)
  case Nil
  then show ?case by simp
next
  case (Cons a as)
  from Cons.prems(1) obtain r where
    r: "assess_asset_risk lib a (entry_of pd (symbol a)) = Inr r"
    and step: "asset_risk_loop lib pd (AList.update (symbol a) r acc) as = Inr ars"
    by (auto split: sum.splits)
  from r obtain d where d: "r = PDict d" "map_of d ''risk_level'' = None"
    by (auto simp: assess_asset_risk_def split: sum.splits)
  have "high_risk_assets_of acc = Inr [] \<Longrightarrow>
      high_risk_assets_of (AList.update (symbol a) (PDict d) acc) = Inr []"
  proof (induction acc rule: high_risk_assets_of.induct)
    case 1
    then show ?case using d(2) by simp
  next
    case (2 s risk rest)
    then show ?case using d(2) by (auto split: sum.splits if_splits)
  qed simp_all
  with Cons.prems(2) d(1)
  have "high_risk_assets_of (AList.update (symbol a) r acc) = Inr []" by simp
  from Cons.IH [OF step this] show ?case .
qed


lemma recommendations_total:
  assumes m: "\<exists>x. get_num M [''annual_volatility''] 0 = Inr x"
    and c: "\<exists>x. get_num C [''average_correlation''] 0 = Inr x"
    and v: "\<exists>x. get_num V [''var_estimates'', ''95%'', ''var_percentage''] 0 = Inr x"
    and s: "\<exists>x. get_num S [''portfolio_resilience_score''] 50 = Inr x"
    and a: "high_risk_assets_of ars = Inr []"
  shows "\<exists>recs. generate_risk_recommendations (PDict
      [(''portfolio_id'', i), (''timestamp'', t), (''total_value_usd'', u),
       (''risk_metrics'', M), (''asset_risks'', PDict ars), (''correlation_analysis'', C),
       (''var_analysis'', V), (''stress_test_results'', S), (''risk_score'', sc),
       (''risk_level'', lv), (''recommendations'', r)]) = Inr recs"
proof -
  let ?ra = "[(''portfolio_id'', i), (''timestamp'', t), (''total_value_usd'', u),
       (''risk_metrics'', M), (''asset_risks'', PDict ars), (''correlation_analysis'', C),
       (''var_analysis'', V), (''stress_test_results'', S), (''risk_score'', sc),
       (''risk_level'', lv), (''recommendations'', r)]"
  from m obtain x1 where x1: "get_num (PDict ?ra) [''risk_metrics'', ''annual_volatility''] 0 = Inr x1"
    by (auto simp: get_num_step)
  from c obtain x2 where x2:
    "get_num (PDict ?ra) [''correlation_analysis'', ''average_correlation''] 0 = Inr x2"
    by (auto simp: get_num_step)
  from v obtain x3 where x3:
    "get_num (PDict ?ra) [''var_analysis'', ''var_estimates'', ''95%'', ''var_percentage''] 0 = Inr x3"
    by (auto simp: get_num_step)
  from s obtain x4 where x4:
    "get_num (PDict ?ra) [''stress_test_results'', ''portfolio_resilience_score''] 50 = Inr x4"
    by (auto simp: get_num_step)
  show ?thesis
    unfolding generate_risk_recommendations_def x1 x2 x3 x4
    by (simp add: bind_exc_def items_of_def a)
qed

text \<open>
  Claim C6, as amended. An exception that leaves the asset-risk loop (the stage has no
  handler of its own) is caught by the single handler of \<^verbatim>\<open>assess_portfolio_risk\<close>, which
  returns the dictionary \<^verbatim>\<open>{'error': str(e)}\<close> and nothing else. When the loop returns, the
  whole assessment is returned: the risk-metrics, correlation, VaR and stress-test stages
  each catch their own failure and store it in their own field, so none of them aborts
  another, and the score, the level and the recommendations are always computed.
\<close>

theorem assess_portfolio_risk_failure_handling:
  assumes "assets (prepare_portfolio_data p pd) = Some as"
    and "total_value (prepare_portfolio_data p pd) = Some tv"
  shows "(\<forall>e. asset_risk_loop lib pd [] as = Inl e \<longrightarrow>
            assess_portfolio_risk lib now p pd = PDict [(''error'', PStr (str_exc e))])
       \<and> (\<forall>ars. asset_risk_loop lib pd [] as = Inr ars \<longrightarrow>
            (\<exists>score recs. assess_portfolio_risk lib now p pd = PDict
               [(''portfolio_id'', PStr (case pid p of None \<Rightarrow> ''unknown'' | Some i \<Rightarrow> i)),
                (''timestamp'', PStr now),
                (''total_value_usd'', PReal tv),
                (''risk_metrics'',
                   calculate_portfolio_risk_metrics lib (prepare_portfolio_data p pd) pd),
                (''asset_risks'', PDict ars),
                (''correlation_analysis'',
                   analyze_portfolio_correlations lib (prepare_portfolio_data p pd) pd),
                (''var_analysis'',
                   calculate_var lib now (prepare_portfolio_data p pd) pd default_confidence_levels),
                (''stress_test_results'',
                   perform_stress_test now (prepare_portfolio_data p pd) pd None),
                (''risk_score'', PNum score),
                (''risk_level'', PStr (categorize_risk_level score)),
                (''recommendations'', PList (map PStr recs))]))"
proof (intro conjI allI impI)
  fix e
  assume "asset_risk_loop lib pd [] as = Inl e"
  then show "assess_portfolio_risk lib now p pd = PDict [(''error'', PStr (str_exc e))]"
    by (simp add: assess_portfolio_risk_def assess_portfolio_risk_body_def assms catch_def
        error_dict_def Let_def)
next
  fix ars
  assume loop: "asset_risk_loop lib pd [] as = Inr ars"
  let ?pdata = "prepare_portfolio_data p pd"
  let ?M = "calculate_portfolio_risk_metrics lib ?pdata pd"
  let ?C = "analyze_portfolio_correlations lib ?pdata pd"
  let ?V = "calculate_var lib now ?pdata pd default_confidence_levels"
  let ?S = "perform_stress_test now ?pdata pd None"
  let ?ra6 = "[(''portfolio_id'', PStr (case pid p of None \<Rightarrow> ''unknown'' | Some i \<Rightarrow> i)),
                (''timestamp'', PStr now), (''total_value_usd'', PReal tv),
                (''risk_metrics'', ?M), (''asset_risks'', PDict ars),
                (''correlation_analysis'', ?C), (''var_analysis'', ?V),
                (''stress_test_results'', ?S), (''risk_score'', PReal 0),
                (''risk_level'', PStr ''unknown''), (''recommendations'', PList [])]"
  define score where "score = calculate_overall_risk_score (PDict ?ra6)"
  have nolevel: "high_risk_assets_of ars = Inr []"
    by (rule asset_risk_loop_no_level [OF loop]) simp
  have "\<exists>recs. generate_risk_recommendations (PDict
      [(''portfolio_id'', PStr (case pid p of None \<Rightarrow> ''unknown'' | Some i \<Rightarrow> i)),
       (''timestamp'', PStr now), (''total_value_usd'', PReal tv),
       (''risk_metrics'', ?M), (''asset_risks'', PDict ars),
       (''correlation_analysis'', ?C), (''var_analysis'', ?V),
       (''stress_test_results'', ?S), (''risk_score'', PNum score),
       (''risk_level'', PStr (categorize_risk_level score)), (''recommendations'', PList [])])
      = Inr recs"
    by (rule recommendations_total [OF metrics_volatility_readable correlation_average_readable
      var_percentage_readable stress_resilience_readable nolevel])
  then obtain recs where recs: "generate_risk_recommendations (PDict
      [(''portfolio_id'', PStr (case pid p of None \<Rightarrow> ''unknown'' | Some i \<Rightarrow> i)),
       (''timestamp'', PStr now), (''total_value_usd'', PReal tv),
       (''risk_metrics'', ?M), (''asset_risks'', PDict ars),
       (''correlation_analysis'', ?C), (''var_analysis'', ?V),
       (''stress_test_results'', ?S), (''risk_score'', PNum score),
       (''risk_level'', PStr (categorize_risk_level score)), (''recommendations'', PList [])])
      = Inr recs"
    by blast
  have "assess_portfolio_risk lib now p pd = PDict
               [(''portfolio_id'', PStr (case pid p of None \<Rightarrow> ''unknown'' | Some i \<Rightarrow> i)),
                (''timestamp'', PStr now), (''total_value_usd'', PReal tv),
                (''risk_metrics'', ?M), (''asset_risks'', PDict ars),
                (''correlation_analysis'', ?C), (''var_analysis'', ?V),
                (''stress_test_results'', ?S), (''risk_score'', PNum score),
                (''risk_level'', PStr (categorize_risk_level score)),
                (''recommendations'', PList (map PStr recs))]"
    using recs
    by (simp add: assess_portfolio_risk_def assess_portfolio_risk_body_def assms loop catch_def
        initial_assessment_def Let_def score_def)
  then show "\<exists>score recs. assess_portfolio_risk lib now p pd = PDict
               [(''portfolio_id'', PStr (case pid p of None \<Rightarrow> ''unknown'' | Some i \<Rightarrow> i)),
                (''timestamp'', PStr now), (''total_value_usd'', PReal tv),
                (''risk_metrics'', ?M), (''asset_risks'', PDict ars),
                (''correlation_analysis'', ?C), (''var_analysis'', ?V),
                (''stress_test_results'', ?S), (''risk_score'', PNum score),
                (''risk_level'', PStr (categorize_risk_level score)),
                (''recommendations'', PList (map PStr recs))]"
    by blast
qed


lemma broken_history_prepared:
  "assets (prepare_portfolio_data btc_eth_portfolio broken_history) =
     Some [\<lparr>symbol = ''BTC'', quantity = 1, asset_current_price = 50000,
             asset_value = 50000, asset_weight = 50 / 53\<rparr>,
           \<lparr>symbol = ''ETH'', quantity = 1, asset_current_price = 3000,
             asset_value = 3000, asset_weight = 3 / 53\<rparr>]"
  "total_value (prepare_portfolio_data btc_eth_portfolio broken_history) = Some 53000"
  by (simp_all add: prepare_portfolio_data_def prepare_portfolio_data_rounded_def
      btc_eth_portfolio_def broken_history_def
      holdings_of_def asset_of_holding_def set_weight_def current_price_of_def entry_of_def
      Let_def)

lemma unpriced_history_prepared:
  "assets (prepare_portfolio_data btc_eth_portfolio unpriced_history) =
     Some [\<lparr>symbol = ''BTC'', quantity = 1, asset_current_price = 0,
             asset_value = 0, asset_weight = 0\<rparr>,
           \<lparr>symbol = ''ETH'', quantity = 1, asset_current_price = 0,
             asset_value = 0, asset_weight = 0\<rparr>]"
  "total_value (prepare_portfolio_data btc_eth_portfolio unpriced_history) = Some 0"
  by (simp_all add: prepare_portfolio_data_def prepare_portfolio_data_rounded_def
      btc_eth_portfolio_def unpriced_history_def
      holdings_of_def asset_of_holding_def set_weight_def current_price_of_def entry_of_def
      Let_def)

lemma btc_risk_completed:
  "assess_asset_risk table_lib
     \<lparr>symbol = ''BTC'', quantity = 1, asset_current_price = 50000,
       asset_value = 50000, asset_weight = 50 / 53\<rparr> (entry_of broken_history ''BTC'')
   = Inr (PDict [(''symbol'', PStr ''BTC''), (''weight'', PReal (50 / 53)),
        (''volatility'', PReal 0), (''max_drawdown'', PReal 0), (''beta'', PReal 1),
        (''sharpe_ratio'', PReal 0), (''risk_contribution'', PReal 0)])"
  by (simp add: assess_asset_risk_def calculate_volatility_def calculate_max_drawdown_def
      calculate_beta_def calculate_sharpe_ratio_def calculate_returns_def entry_of_def
      broken_history_def)

lemma eth_risk_raises:
  "assess_asset_risk table_lib
     \<lparr>symbol = ''ETH'', quantity = 1, asset_current_price = 3000,
       asset_value = 3000, asset_weight = 3 / 53\<rparr> (entry_of broken_history ''ETH'')
   = Inl (KeyError ''price'')"
  by (simp add: assess_asset_risk_def calculate_volatility_def calculate_returns_def
      price_values_def entry_of_def broken_history_def)

lemma broken_history_loop:
  "asset_risk_loop table_lib broken_history []
     [\<lparr>symbol = ''BTC'', quantity = 1, asset_current_price = 50000,
             asset_value = 50000, asset_weight = 50 / 53\<rparr>,
      \<lparr>symbol = ''ETH'', quantity = 1, asset_current_price = 3000,
             asset_value = 3000, asset_weight = 3 / 53\<rparr>] = Inl (KeyError ''price'')"
  using btc_risk_completed eth_risk_raises by simp

lemma unpriced_history_loop:
  "\<exists>ars. asset_risk_loop table_lib unpriced_history []
     [\<lparr>symbol = ''BTC'', quantity = 1, asset_current_price = 0,
             asset_value = 0, asset_weight = 0\<rparr>,
      \<lparr>symbol = ''ETH'', quantity = 1, asset_current_price = 0,
             asset_value = 0, asset_weight = 0\<rparr>] = Inr ars"
  by (simp add: assess_asset_risk_def calculate_volatility_def calculate_max_drawdown_def
      calculate_beta_def calculate_sharpe_ratio_def calculate_returns_def entry_of_def
      unpriced_history_def price_values_def price_record_def simple_returns_def np_diff_def
      drawdown_of_returns_def np_cumprod_def accumulate_def np_min_def np_mean_def np_sum_def
      np_std_def np_sub_def table_lib_def Let_def)

lemma unpriced_stress_fails:
  "perform_stress_test now (prepare_portfolio_data btc_eth_portfolio unpriced_history)
     unpriced_history None = PDict [(''error'', PStr ''division by zero'')]"
proof -
  have "\<exists>e. perform_stress_test now (prepare_portfolio_data btc_eth_portfolio unpriced_history)
     unpriced_history None = error_dict e"
    by (rule stress_test_zero_value_is_error) (simp add: unpriced_history_prepared)
  then show ?thesis
    by (auto simp: perform_stress_test_def perform_stress_test_body_def catch_def error_dict_def
        unpriced_history_prepared get_default_stress_scenarios_def scenario_report_of_def
        py_div_def Let_def)
qed

theorem assess_portfolio_risk_failure_handling_witness:
  "assess_portfolio_risk table_lib ''2024-01-01T00:00:00'' btc_eth_portfolio broken_history
     = PDict [(''error'', PStr [CHR 0x27, CHR ''p'', CHR ''r'', CHR ''i'', CHR ''c'', CHR ''e'', CHR 0x27])]
   \<and> py_get (assess_portfolio_risk table_lib ''2024-01-01T00:00:00'' btc_eth_portfolio
               unpriced_history) ''stress_test_results'' (PStr ''absent'')
       = Inr (PDict [(''error'', PStr ''division by zero'')])
   \<and> py_get (assess_portfolio_risk table_lib ''2024-01-01T00:00:00'' btc_eth_portfolio
               unpriced_history) ''total_value_usd'' (PStr ''absent'') = Inr (PReal 0)
   \<and> py_get (assess_portfolio_risk table_lib ''2024-01-01T00:00:00'' btc_eth_portfolio
               unpriced_history) ''recommendations'' (PStr ''absent'') \<noteq> Inr (PStr ''absent'')"
proof -
  let ?now = "''2024-01-01T00:00:00''"
  from assess_portfolio_risk_failure_handling [OF broken_history_prepared, of table_lib ?now]
    broken_history_loop
  have a: "assess_portfolio_risk table_lib ?now btc_eth_portfolio broken_history
      = PDict [(''error'', PStr (str_exc (KeyError ''price'')))]"
    by blast
  from unpriced_history_loop obtain ars where
    l: "asset_risk_loop table_lib unpriced_history []
     [\<lparr>symbol = ''BTC'', quantity = 1, asset_current_price = 0,
             asset_value = 0, asset_weight = 0\<rparr>,
      \<lparr>symbol = ''ETH'', quantity = 1, asset_current_price = 0,
             asset_value = 0, asset_weight = 0\<rparr>] = Inr ars"
    by blast
  from assess_portfolio_risk_failure_handling [OF unpriced_history_prepared, of table_lib ?now] l
  obtain score recs where
    b: "assess_portfolio_risk table_lib ?now btc_eth_portfolio unpriced_history = PDict
         [(''portfolio_id'', PStr (case pid btc_eth_portfolio of None \<Rightarrow> ''unknown'' | Some i \<Rightarrow> i)),
          (''timestamp'', PStr ?now),
          (''total_value_usd'', PReal 0),
          (''risk_metrics'', calculate_portfolio_risk_metrics table_lib
              (prepare_portfolio_data btc_eth_portfolio unpriced_history) unpriced_history),
          (''asset_risks'', PDict ars),
          (''correlation_analysis'', analyze_portfolio_correlations table_lib
              (prepare_portfolio_data btc_eth_portfolio unpriced_history) unpriced_history),
          (''var_analysis'', calculate_var table_lib ?now
              (prepare_portfolio_data btc_eth_portfolio unpriced_history) unpriced_history
              default_confidence_levels),
          (''stress_test_results'', perform_stress_test ?now
              (prepare_portfolio_data btc_eth_portfolio unpriced_history) unpriced_history None),
          (''risk_score'', PNum score),
          (''risk_level'', PStr (categorize_risk_level score)),
          (''recommendations'', PList (map PStr recs))]"
    by blast
  show ?thesis
    unfolding a b by (simp add: unpriced_stress_fails)
qed

text \<open>
  Claim C6, as stated, fails. The ETH history holds a record without a price: the total
  value (53000) and the risk of BTC are computed, then the risk of ETH raises, and the
  returned dictionary holds the error alone, without the total value and the asset risks.
\<close>

theorem assess_portfolio_risk_drops_results_counterexample:
  "total_value (prepare_portfolio_data btc_eth_portfolio broken_history) = Some 53000
   \<and> isl (assess_asset_risk table_lib
        \<lparr>symbol = ''ETH'', quantity = 1, asset_current_price = 3000,
          asset_value = 3000, asset_weight = 3 / 53\<rparr> (entry_of broken_history ''ETH''))
   \<and> \<not> isl (assess_asset_risk table_lib
        \<lparr>symbol = ''BTC'', quantity = 1, asset_current_price = 50000,
          asset_value = 50000, asset_weight = 50 / 53\<rparr> (entry_of broken_history ''BTC''))
   \<and> py_get (assess_portfolio_risk table_lib ''2024-01-01T00:00:00'' btc_eth_portfolio
               broken_history) ''total_value_usd'' (PStr ''absent'') = Inr (PStr ''absent'')
   \<and> py_get (assess_portfolio_risk table_lib ''2024-01-01T00:00:00'' btc_eth_portfolio
               broken_history) ''asset_risks'' (PStr ''absent'') = Inr (PStr ''absent'')"
  by (simp add: broken_history_prepared btc_risk_completed eth_risk_raises
      assess_portfolio_risk_def assess_portfolio_risk_body_def broken_history_loop catch_def
      error_dict_def Let_def)

end
